theory Spec2Isabelle
  imports Main
begin

section \<open>Values, types and the world outside the app\<close>

subsection \<open>Thrown values and promises\<close>

text \<open>
  A \<^verbatim>\<open>throw\<close> and a rejected promise carry a value. \<open>Error m\<close> is an instance of
  \<^verbatim>\<open>Error\<close> (or of a subclass such as \<^verbatim>\<open>TypeError\<close>) with message \<open>m\<close>;
  \<open>NonError v\<close> is any other thrown value, \<open>v\<close> its rendering.
  An asynchronous call observed at some moment is still pending, or it has thrown, or
  it has returned.
\<close>

datatype thrown = Error string | NonError string

datatype 'a outcome = Pending | Threw thrown | Returned 'a

text \<open>A number in a template literal: its decimal digits.\<close>

fun string_of_nat :: "nat \<Rightarrow> string" where
  "string_of_nat n =
     (if n < 10 then [''0123456789'' ! n]
      else string_of_nat (n div 10) @ [''0123456789'' ! (n mod 10)])"

declare string_of_nat.simps [simp del]

text \<open>Reading decimal digits back.\<close>

fun digit_value :: "char \<Rightarrow> nat" where
  "digit_value c = of_char c - 48"

fun nat_of_string :: "string \<Rightarrow> nat" where
  "nat_of_string s = foldl (\<lambda>a c. 10 * a + digit_value c) 0 s"

subsection \<open>The types module\<close>

text \<open>
  Every source file imports its enums and interfaces from \<^verbatim>\<open>types\<close>, which is not
  among the sources. The members below are the ones the sources name
  (\<^verbatim>\<open>Record<GenerationMode, ...>\<close> and \<^verbatim>\<open>Record<AspectRatio, ...>\<close> in PromptForm list all
  members of those two enums); field types are read off the use sites. An optional
  field is an \<open>option\<close>. \<^verbatim>\<open>prompt\<close> and \<^verbatim>\<open>isLooping\<close> are only tested for
  truthiness, so an absent prompt is the empty string and an absent flag is \<open>False\<close>.
\<close>

datatype GenerationMode =
  TEXT_TO_VIDEO | FRAMES_TO_VIDEO | REFERENCES_TO_VIDEO | EXTEND_VIDEO | DIRECTOR

datatype AspectRatio = LANDSCAPE | PORTRAIT

datatype Resolution = P720 | P1080

text \<open>
  Of \<^verbatim>\<open>VeoModel\<close> the sources name one member, \<^verbatim>\<open>VEO_FAST\<close>; \<open>VeoModel_other\<close> stands
  for the members they do not name.
\<close>

datatype VeoModel = VEO_FAST | VeoModel_other string

datatype AppState = IDLE | LOADING | SUCCESS | ERROR | DIRECTOR_READY

datatype SceneStatus = Scene_idle | Scene_generating | Scene_done | Scene_error

record ImageFile =
  file_type :: string
  base64 :: string

record Video =
  uri :: "string option"

text \<open>
  A scene of the storyboard. TypeScript declares \<^verbatim>\<open>title\<close> and \<^verbatim>\<open>prompt\<close> as strings;
  \<^verbatim>\<open>parseScript\<close> fills them with whatever the parsed response holds, so the record
  leaves their type open. \<open>scene_id\<close> is the field \<^verbatim>\<open>id\<close>.
\<close>

record 't StoryboardScene =
  scene_id :: string
  title :: 't
  prompt :: 't
  videoUrl :: "string option"
  videoObject :: "Video option"
  status :: SceneStatus

record GenerateVideoParams =
  prompt :: string
  model :: VeoModel
  aspectRatio :: AspectRatio
  resolution :: Resolution
  mode :: GenerationMode
  startFrame :: "ImageFile option"
  endFrame :: "ImageFile option"
  referenceImages :: "ImageFile list option"
  inputVideoObject :: "Video option"
  isLooping :: bool

subsection \<open>The vendor API: requests and responses\<close>

record Image =
  imageBytes :: string
  mimeType :: string

datatype VideoGenerationReferenceType = ASSET

record VideoGenerationReferenceImage =
  image :: Image
  referenceType :: VideoGenerationReferenceType

record GenerateVideosConfig =
  numberOfVideos :: nat
  resolution :: Resolution
  aspectRatio :: "AspectRatio option"
  lastFrame :: "Image option"
  referenceImages :: "VideoGenerationReferenceImage list option"

record GenerateVideosPayload =
  model :: VeoModel
  config :: GenerateVideosConfig
  prompt :: "string option"
  image :: "Image option"
  video :: "Video option"

record GeneratedVideo =
  video :: "Video option"

record GenerateVideosResponse =
  generatedVideos :: "GeneratedVideo list option"

text \<open>\<open>is_done\<close> is the field \<^verbatim>\<open>done\<close>; an absent \<^verbatim>\<open>done\<close> is falsy, hence \<open>False\<close>.\<close>

record GenerateVideosOperation =
  is_done :: bool
  response :: "GenerateVideosResponse option"

record FetchResponse =
  ok :: bool
  status :: nat
  blob :: "thrown + string"

record GenerateVideoResult =
  objectUrl :: string
  blob :: string
  uri :: string
  video :: Video

text \<open>
  What lies outside the repository: the vendor client, \<^verbatim>\<open>fetch\<close>, and the browser's
  built-ins. Each remote call either throws or returns. The service is stateful, so
  \<open>getVideosOperation\<close> also depends on how many status requests came before it.
  \<open>API_KEY\<close> is \<^verbatim>\<open>process.env.API_KEY\<close>, \<open>None\<close> when it is not set.
\<close>

record Remote =
  API_KEY :: "string option"
  generateVideos :: "GenerateVideosPayload \<Rightarrow> thrown + GenerateVideosOperation"
  getVideosOperation :: "nat \<Rightarrow> GenerateVideosOperation \<Rightarrow> thrown + GenerateVideosOperation"
  decodeURIComponent :: "string \<Rightarrow> thrown + string"
  fetch :: "string \<Rightarrow> thrown + FetchResponse"
  createObjectURL :: "string \<Rightarrow> string"

text \<open>
  The calls the app makes across that boundary, in the order it makes them. A request is
  logged with the answer it got. \<open>SetTimeout ms\<close> is the awaited timer.
  \<open>RevokeObjectURL\<close> is the browser call that releases an object URL.
\<close>

datatype event =
    GenerateVideos GenerateVideosPayload "thrown + GenerateVideosOperation"
  | SetTimeout nat
  | GetVideosOperation GenerateVideosOperation "thrown + GenerateVideosOperation"
  | Fetch string
  | CreateObjectURL string string
  | RevokeObjectURL string

fun is_GenerateVideos :: "event \<Rightarrow> bool" where
  "is_GenerateVideos (GenerateVideos _ _) = True"
| "is_GenerateVideos _ = False"

fun is_GetVideosOperation :: "event \<Rightarrow> bool" where
  "is_GetVideosOperation (GetVideosOperation _ _) = True"
| "is_GetVideosOperation _ = False"

fun is_Fetch :: "event \<Rightarrow> bool" where
  "is_Fetch (Fetch _) = True"
| "is_Fetch _ = False"

text \<open>
  What a request was answered, and whether the answer reported the job finished.
\<close>

fun answer :: "event \<Rightarrow> (thrown + GenerateVideosOperation) option" where
  "answer (GenerateVideos _ r) = Some r"
| "answer (GetVideosOperation _ r) = Some r"
| "answer _ = None"

fun reported_done :: "event \<Rightarrow> bool" where
  "reported_done (GenerateVideos _ (Inr operation)) = is_done operation"
| "reported_done (GetVideosOperation _ (Inr operation)) = is_done operation"
| "reported_done _ = False"

section \<open>geminiService: generateVideo\<close>

text \<open>
  Both functions of the service start with \<^verbatim>\<open>new GoogleGenAI({apiKey: process.env.API_KEY})\<close>.
  The client belongs to the vendor library; its browser build refuses to be constructed
  without a key and throws. \<open>Some e\<close> is that throw, \<open>None\<close> a constructed client.
\<close>

definition new_GoogleGenAI :: "string option \<Rightarrow> thrown option" where
  "new_GoogleGenAI apiKey =
     (case apiKey of
        None \<Rightarrow> Some (Error ''An API Key must be set when running in a browser'')
      | Some key \<Rightarrow> None)"

text \<open>\<^verbatim>\<open>{imageBytes: f.base64, mimeType: f.file.type || 'image/png'}\<close>\<close>

definition image_of :: "ImageFile \<Rightarrow> Image" where
  "image_of f =
     \<lparr>imageBytes = base64 f,
      mimeType = (if file_type f \<noteq> [] then file_type f else ''image/png'')\<rparr>"

text \<open>
  The first part of \<^verbatim>\<open>generateVideo\<close>, up to the request: it assembles the payload, or
  throws in \<^verbatim>\<open>EXTEND_VIDEO\<close> mode without an input video.
\<close>

definition build_payload :: "GenerateVideoParams \<Rightarrow> thrown + GenerateVideosPayload" where
  "build_payload params =
     (let config =
            \<lparr>numberOfVideos = 1,
             resolution = GenerateVideoParams.resolution params,
             aspectRatio =
               (if mode params \<noteq> EXTEND_VIDEO
                then Some (GenerateVideoParams.aspectRatio params) else None),
             lastFrame = None,
             referenceImages = None\<rparr>;
          generateVideoPayload =
            \<lparr>model = GenerateVideoParams.model params,
             config = config,
             prompt =
               (if GenerateVideoParams.prompt params \<noteq> []
                then Some (GenerateVideoParams.prompt params) else None),
             image =
               (case startFrame params of
                  Some f \<Rightarrow> Some (image_of f)
                | None \<Rightarrow> None),
             video = None\<rparr>
      in if mode params = FRAMES_TO_VIDEO then
           (let finalEndFrame =
                  (if isLooping params then startFrame params else endFrame params)
            in case finalEndFrame of
                 Some f \<Rightarrow>
                   Inr (generateVideoPayload
                          \<lparr>config := config\<lparr>lastFrame := Some (image_of f)\<rparr>\<rparr>)
               | None \<Rightarrow> Inr generateVideoPayload)
         else if mode params = REFERENCES_TO_VIDEO then
           (let referenceImagesPayload =
                  (case GenerateVideoParams.referenceImages params of
                     Some imgs \<Rightarrow>
                       map (\<lambda>img. \<lparr>VideoGenerationReferenceImage.image = image_of img,
                                  referenceType = ASSET\<rparr>) imgs
                   | None \<Rightarrow> [])
            in if length referenceImagesPayload > 0
               then Inr (generateVideoPayload
                           \<lparr>config := config\<lparr>referenceImages := Some referenceImagesPayload\<rparr>\<rparr>)
               else Inr generateVideoPayload)
         else if mode params = EXTEND_VIDEO then
           (case inputVideoObject params of
              Some v \<Rightarrow> Inr (generateVideoPayload\<lparr>GenerateVideosPayload.video := Some v\<rparr>)
            | None \<Rightarrow> Inl (Error ''An input video object is required to extend a video.''))
         else Inr generateVideoPayload)"

text \<open>
  The loop \<^verbatim>\<open>while (!operation.done) { await timer; operation = await status }\<close>.
  Nothing bounds it in the source. \<open>fuel\<close> is the number of iterations observed so
  far: when it runs out on an unfinished operation the call is still \<open>Pending\<close>.
  \<open>n\<close> counts the status requests already made.
\<close>

fun poll ::
  "Remote \<Rightarrow> nat \<Rightarrow> nat \<Rightarrow> GenerateVideosOperation
     \<Rightarrow> event list \<times> GenerateVideosOperation outcome" where
  "poll remote 0 n operation =
     (if is_done operation then ([], Returned operation) else ([], Pending))"
| "poll remote (Suc fuel) n operation =
     (if is_done operation then ([], Returned operation)
      else
        (let r = getVideosOperation remote n operation;
             evs = [SetTimeout 10000, GetVideosOperation operation r]
         in case r of
              Inl e \<Rightarrow> (evs, Threw e)
            | Inr operation' \<Rightarrow>
                (case poll remote fuel (Suc n) operation' of
                   (tr, res) \<Rightarrow> (evs @ tr, res))))"

text \<open>
  The last part of \<^verbatim>\<open>generateVideo\<close>, after the loop: it reads the first generated
  video, fetches it and wraps the bytes in an object URL. Reading \<^verbatim>\<open>.uri\<close> of an
  absent video throws a \<^verbatim>\<open>TypeError\<close>; an absent \<^verbatim>\<open>uri\<close> or API key is rendered
  \<^verbatim>\<open>undefined\<close> by the string conversion.
\<close>

definition fetch_video ::
  "Remote \<Rightarrow> GenerateVideosOperation \<Rightarrow> event list \<times> GenerateVideoResult outcome" where
  "fetch_video remote operation =
     (case response operation of
        None \<Rightarrow> ([], Threw (Error ''Operation failed.''))
      | Some resp \<Rightarrow>
          (case generatedVideos resp of
             None \<Rightarrow> ([], Threw (Error ''No videos were generated.''))
           | Some [] \<Rightarrow> ([], Threw (Error ''No videos were generated.''))
           | Some (firstVideo # _) \<Rightarrow>
               (case GeneratedVideo.video firstVideo of
                  None \<Rightarrow>
                    ([], Threw (Error ''Cannot read properties of undefined (reading 'uri')''))
                | Some video_object \<Rightarrow>
                    (case decodeURIComponent remote
                            (case Video.uri video_object of
                               Some u \<Rightarrow> u
                             | None \<Rightarrow> ''undefined'') of
                       Inl e \<Rightarrow> ([], Threw e)
                     | Inr url \<Rightarrow>
                         (let request =
                                url @ ''&key='' @
                                (case API_KEY remote of
                                   Some k \<Rightarrow> k
                                 | None \<Rightarrow> ''undefined'')
                          in case fetch remote request of
                               Inl e \<Rightarrow> ([Fetch request], Threw e)
                             | Inr res \<Rightarrow>
                                 if \<not> ok res then
                                   ([Fetch request],
                                    Threw (Error (''Failed to fetch video: '' @
                                                  string_of_nat (status res))))
                                 else
                                   (case FetchResponse.blob res of
                                      Inl e \<Rightarrow> ([Fetch request], Threw e)
                                    | Inr videoBlob \<Rightarrow>
                                        (let objectUrl = createObjectURL remote videoBlob
                                         in ([Fetch request,
                                              CreateObjectURL videoBlob objectUrl],
                                             Returned
                                               \<lparr>objectUrl = objectUrl,
                                                blob = videoBlob,
                                                uri = url,
                                                video = video_object\<rparr>))))))))"

text \<open>The whole function: client, payload, request, loop, download.\<close>

definition generateVideo ::
  "Remote \<Rightarrow> nat \<Rightarrow> GenerateVideoParams \<Rightarrow> event list \<times> GenerateVideoResult outcome" where
  "generateVideo remote fuel params =
     (case new_GoogleGenAI (API_KEY remote) of
        Some e \<Rightarrow> ([], Threw e)
      | None \<Rightarrow>
          (case build_payload params of
             Inl e \<Rightarrow> ([], Threw e)
           | Inr generateVideoPayload \<Rightarrow>
               (let r = generateVideos remote generateVideoPayload;
                    submitted = GenerateVideos generateVideoPayload r
                in case r of
                     Inl e \<Rightarrow> ([submitted], Threw e)
                   | Inr operation \<Rightarrow>
                       (case poll remote fuel 0 operation of
                          (tr, Pending) \<Rightarrow> (submitted # tr, Pending)
                        | (tr, Threw e) \<Rightarrow> (submitted # tr, Threw e)
                        | (tr, Returned operation') \<Rightarrow>
                            (case fetch_video remote operation' of
                               (tr', res) \<Rightarrow> (submitted # tr @ tr', res))))))"

section \<open>geminiService: parseScript\<close>

text \<open>
  What \<^verbatim>\<open>JSON.parse\<close> returns. An object is its list of own properties. The type of
  numbers is left open: no number is inspected.
\<close>

datatype 'n json =
    JNull
  | JBool bool
  | JNumber 'n
  | JString string
  | JArray "'n json list"
  | JObject "(string \<times> 'n json) list"

text \<open>
  Reading a property of a parsed value, for a name that is no built-in property of
  strings, arrays or objects (the source reads \<^verbatim>\<open>title\<close> and \<^verbatim>\<open>prompt\<close>): \<^verbatim>\<open>null\<close>
  throws a \<^verbatim>\<open>TypeError\<close>, an object yields its own property, anything else yields
  \<^verbatim>\<open>undefined\<close>, here \<open>None\<close>.
\<close>

fun get_property :: "'n json \<Rightarrow> string \<Rightarrow> thrown + 'n json option" where
  "get_property JNull name =
     Inl (Error (''Cannot read properties of null (reading '' @ [CHR 0x27] @ name @
                 [CHR 0x27] @ '')''))"
| "get_property (JObject properties) name = Inr (map_of properties name)"
| "get_property _ name = Inr None"

text \<open>
  \<^verbatim>\<open>rawData.map((scene, index) => ({id: `scene-${index}`, ...}))\<close> from \<open>index\<close> on; a
  throwing callback ends the whole map.
\<close>

fun map_scenes ::
  "nat \<Rightarrow> 'n json list \<Rightarrow> thrown + ('n json option) StoryboardScene list" where
  "map_scenes index [] = Inr []"
| "map_scenes index (scene # rest) =
     (case get_property scene ''title'' of
        Inl e \<Rightarrow> Inl e
      | Inr scene_title \<Rightarrow>
          (case get_property scene ''prompt'' of
             Inl e \<Rightarrow> Inl e
           | Inr scene_prompt \<Rightarrow>
               (case map_scenes (Suc index) rest of
                  Inl e \<Rightarrow> Inl e
                | Inr scenes \<Rightarrow>
                    Inr (\<lparr>scene_id = ''scene-'' @ string_of_nat index,
                          title = scene_title,
                          prompt = scene_prompt,
                          videoUrl = None,
                          videoObject = None,
                          status = Scene_idle\<rparr> # scenes))))"

text \<open>The \<^verbatim>\<open>contents\<close> of the request: the instructions, then the script.\<close>

definition contents :: "string \<Rightarrow> string" where
  "contents script =
     ''Analyze the following video script/brief and break it into 5 distinct cinematic scenes for an AI video generator. ''
     @ [CHR 0x0A] @
     ''    Each scene should have a clear visual prompt that describes the camera angle, lighting, and action. ''
     @ [CHR 0x0A] @
     ''    Ensure the prompts describe a consistent environment and character.''
     @ [CHR 0x0A] @ ''    '' @ [CHR 0x0A] @ ''    Script:'' @ [CHR 0x0A] @ ''    '' @ script"

text \<open>
  The body of the \<^verbatim>\<open>try\<close> block: parse \<^verbatim>\<open>response.text\<close> (an absent text is converted
  to the string \<^verbatim>\<open>undefined\<close>) and map the array. A parsed value other than an array has
  no \<^verbatim>\<open>map\<close> method.
\<close>

definition parse_scenes ::
  "(string \<Rightarrow> thrown + 'n json) \<Rightarrow> string option
     \<Rightarrow> thrown + ('n json option) StoryboardScene list" where
  "parse_scenes JSON_parse text =
     (case JSON_parse (case text of Some t \<Rightarrow> t | None \<Rightarrow> ''undefined'') of
        Inl e \<Rightarrow> Inl e
      | Inr (JArray rawData) \<Rightarrow> map_scenes 0 rawData
      | Inr JNull \<Rightarrow>
          Inl (Error (''Cannot read properties of null (reading '' @ [CHR 0x27] @ ''map'' @
                      [CHR 0x27] @ '')''))
      | Inr _ \<Rightarrow> Inl (Error ''rawData.map is not a function''))"

text \<open>
  \<^verbatim>\<open>parseScript\<close>. The key \<open>apiKey\<close> is \<^verbatim>\<open>process.env.API_KEY\<close>; the request
  \<open>generateContent\<close> and \<^verbatim>\<open>JSON.parse\<close> lie outside the repository. The client is
  constructed and the request is made before the \<^verbatim>\<open>try\<close>, so what they throw passes
  through; whatever the \<^verbatim>\<open>try\<close> block throws is replaced by one fixed error.
\<close>

definition parseScript ::
  "string option \<Rightarrow> (string \<Rightarrow> thrown + string option) \<Rightarrow> (string \<Rightarrow> thrown + 'n json)
     \<Rightarrow> string \<Rightarrow> thrown + ('n json option) StoryboardScene list" where
  "parseScript apiKey generateContent JSON_parse script =
     (case new_GoogleGenAI apiKey of
        Some e \<Rightarrow> Inl e
      | None \<Rightarrow>
          (case generateContent (contents script) of
             Inl e \<Rightarrow> Inl e
           | Inr text \<Rightarrow>
               (case parse_scenes JSON_parse text of
                  Inr scenes \<Rightarrow> Inr scenes
                | Inl e \<Rightarrow>
                    Inl (Error
                      ''Could not interpret the script. Please try a different description.''))))"

section \<open>App: state and handlers\<close>

text \<open>The \<^verbatim>\<open>useState\<close> cells of \<^verbatim>\<open>App\<close>, with their initial values.\<close>

record App =
  appState :: AppState
  videoUrl :: "string option"
  errorMessage :: "string option"
  lastConfig :: "GenerateVideoParams option"
  lastVideoObject :: "Video option"
  lastVideoBlob :: "string option"
  showApiKeyDialog :: bool
  storyboardScenes :: "string StoryboardScene list"
  initialFormValues :: "GenerateVideoParams option"

definition initial_App :: App where
  "initial_App =
     \<lparr>appState = IDLE,
      videoUrl = None,
      errorMessage = None,
      lastConfig = None,
      lastVideoObject = None,
      lastVideoBlob = None,
      showApiKeyDialog = False,
      storyboardScenes = [],
      initialFormValues = None\<rparr>"

text \<open>
  \<^verbatim>\<open>handleGenerate\<close> is asynchronous: the part before \<^verbatim>\<open>await generateVideo(params)\<close> runs
  at once, the rest when the call has returned or thrown. While the call is pending the
  state is the one the first part left.
\<close>

definition handleGenerate_begin :: "GenerateVideoParams \<Rightarrow> App \<Rightarrow> App" where
  "handleGenerate_begin params s =
     s\<lparr>appState := LOADING, errorMessage := None, lastConfig := Some params\<rparr>"

text \<open>\<^verbatim>\<open>error instanceof Error ? error.message : 'Unknown error'\<close>\<close>

fun error_message :: "thrown \<Rightarrow> string" where
  "error_message (Error message) = message"
| "error_message (NonError _) = ''Unknown error''"

fun handleGenerate_settle :: "GenerateVideoResult outcome \<Rightarrow> App \<Rightarrow> App" where
  "handleGenerate_settle (Returned result) s =
     s\<lparr>App.videoUrl := Some (objectUrl result),
       lastVideoBlob := Some (GenerateVideoResult.blob result),
       lastVideoObject := Some (GenerateVideoResult.video result),
       appState := SUCCESS\<rparr>"
| "handleGenerate_settle (Threw e) s =
     s\<lparr>errorMessage := Some (error_message e), appState := ERROR\<rparr>"
| "handleGenerate_settle Pending s = s"

definition handleGenerate ::
  "Remote \<Rightarrow> nat \<Rightarrow> GenerateVideoParams \<Rightarrow> App \<Rightarrow> App \<times> event list" where
  "handleGenerate remote fuel params s =
     (case generateVideo remote fuel params of
        (tr, out) \<Rightarrow> (handleGenerate_settle out (handleGenerate_begin params s), tr))"

definition handleDirectorParse :: "string StoryboardScene list \<Rightarrow> App \<Rightarrow> App" where
  "handleDirectorParse scenes s =
     s\<lparr>storyboardScenes := scenes, appState := DIRECTOR_READY\<rparr>"

definition handleNewVideo :: "App \<Rightarrow> App" where
  "handleNewVideo s =
     s\<lparr>appState := IDLE, App.videoUrl := None, storyboardScenes := [],
       initialFormValues := None\<rparr>"

section \<open>DirectorView: state and handlers\<close>

record DirectorView =
  scenes :: "string StoryboardScene list"
  globalError :: "string option"

text \<open>\<^verbatim>\<open>prev.map((s, i) => f(s, i))\<close>\<close>

definition map_index :: "('a \<Rightarrow> nat \<Rightarrow> 'b) \<Rightarrow> 'a list \<Rightarrow> 'b list" where
  "map_index f xs = map (\<lambda>(s, i). f s i) (zip xs [0..<length xs])"

text \<open>
  \<^verbatim>\<open>handleGenerateScene(index)\<close>, split at its \<^verbatim>\<open>await\<close> like \<^verbatim>\<open>handleGenerate\<close>. The
  updates are functions of the latest scene list. The argument of \<^verbatim>\<open>generateVideo\<close>
  names five fields; the others are absent. \<open>model'\<close>, \<open>aspectRatio'\<close> and
  \<open>resolution'\<close> are the component's props.
\<close>

definition handleGenerateScene_begin :: "nat \<Rightarrow> DirectorView \<Rightarrow> DirectorView" where
  "handleGenerateScene_begin index d =
     d\<lparr>scenes :=
         map_index (\<lambda>s i. if i = index then s\<lparr>StoryboardScene.status := Scene_generating\<rparr> else s)
           (scenes d),
       globalError := None\<rparr>"

definition scene_params ::
  "VeoModel \<Rightarrow> AspectRatio \<Rightarrow> Resolution \<Rightarrow> string StoryboardScene \<Rightarrow> GenerateVideoParams" where
  "scene_params model' aspectRatio' resolution' scene =
     \<lparr>GenerateVideoParams.prompt = StoryboardScene.prompt scene,
      model = model',
      aspectRatio = aspectRatio',
      resolution = resolution',
      mode = TEXT_TO_VIDEO,
      startFrame = None,
      endFrame = None,
      referenceImages = None,
      inputVideoObject = None,
      isLooping = False\<rparr>"

fun handleGenerateScene_settle ::
  "nat \<Rightarrow> GenerateVideoResult outcome \<Rightarrow> DirectorView \<Rightarrow> DirectorView" where
  "handleGenerateScene_settle index (Returned result) d =
     d\<lparr>scenes :=
         map_index
           (\<lambda>s i. if i = index
                  then s\<lparr>StoryboardScene.status := Scene_done,
                         StoryboardScene.videoUrl := Some (objectUrl result),
                         videoObject := Some (GenerateVideoResult.video result)\<rparr>
                  else s)
           (scenes d)\<rparr>"
| "handleGenerateScene_settle index (Threw err) d =
     d\<lparr>globalError := Some (''Failed to generate Scene '' @ string_of_nat (index + 1)),
       scenes :=
         map_index (\<lambda>s i. if i = index then s\<lparr>StoryboardScene.status := Scene_error\<rparr> else s) (scenes d)\<rparr>"
| "handleGenerateScene_settle index Pending d = d"

text \<open>
  The whole handler against one remote. \<^verbatim>\<open>scenes[index]\<close> beyond the list is
  \<^verbatim>\<open>undefined\<close>, and reading its \<^verbatim>\<open>prompt\<close> throws inside the \<^verbatim>\<open>try\<close> before any call.
\<close>

definition handleGenerateScene ::
  "Remote \<Rightarrow> nat \<Rightarrow> VeoModel \<Rightarrow> AspectRatio \<Rightarrow> Resolution \<Rightarrow> nat \<Rightarrow> DirectorView
     \<Rightarrow> DirectorView \<times> event list" where
  "handleGenerateScene remote fuel model' aspectRatio' resolution' index d =
     (if index < length (scenes d) then
        (case generateVideo remote fuel
                (scene_params model' aspectRatio' resolution' (scenes d ! index)) of
           (tr, out) \<Rightarrow>
             (handleGenerateScene_settle index out (handleGenerateScene_begin index d), tr))
      else
        (handleGenerateScene_settle index
           (Threw (Error ''Cannot read properties of undefined (reading 'prompt')''))
           (handleGenerateScene_begin index d),
         []))"

text \<open>The button a scene card shows, by the scene's status.\<close>

datatype scene_button = Produce_Scene | Retry

fun scene_card_button :: "SceneStatus \<Rightarrow> scene_button option" where
  "scene_card_button Scene_idle = Some Produce_Scene"
| "scene_card_button Scene_generating = None"
| "scene_card_button Scene_error = Some Retry"
| "scene_card_button Scene_done = None"

section \<open>The page as a transition system\<close>

text \<open>
  The whole page: the state of \<^verbatim>\<open>App\<close>; \<^verbatim>\<open>isAnalyzing\<close> of the mounted \<^verbatim>\<open>PromptForm\<close>;
  the mounted \<^verbatim>\<open>DirectorView\<close>, if any; the asynchronous calls in flight; and the trace
  of calls made so far. \<open>generating\<close> is the argument of the pending \<^verbatim>\<open>generateVideo\<close>
  call of \<^verbatim>\<open>handleGenerate\<close>; \<open>producing\<close> holds, by scene index, the arguments of the
  pending calls of the mounted director view; \<open>orphaned\<close> holds the pending calls of
  director views that are gone, whose state updates no longer reach any component.
  \<open>alerts\<close> holds the texts shown to the user by \<^verbatim>\<open>alert\<close>, \<open>console\<close> the thrown
  values the handlers of the page pass to \<^verbatim>\<open>console.error\<close>, which the user does not see.
  A state update is taken to be rendered before the next event arrives. The previews of
  uploaded images, which the form also shows through object URLs, are not part of the
  trace.
\<close>

record UI =
  app :: App
  isAnalyzing :: bool
  director :: "DirectorView option"
  generating :: "GenerateVideoParams option"
  producing :: "(nat \<times> GenerateVideoParams) list"
  orphaned :: "GenerateVideoParams list"
  log :: "event list"
  alerts :: "string list"
  console :: "thrown list"

definition initial_UI :: UI where
  "initial_UI =
     \<lparr>app = initial_App,
      isAnalyzing = False,
      director = None,
      generating = None,
      producing = [],
      orphaned = [],
      log = [],
      alerts = [],
      console = []\<rparr>"

text \<open>
  What can happen to the page: a click on an element that is rendered and enabled, or
  the settling of a call in flight. A settling call brings the remote it ran against and
  the number of loop iterations it was given.
\<close>

datatype ui_event =
    Submit GenerateVideoParams
  | AnalysisSettled "thrown + string StoryboardScene list"
  | GenerationSettled Remote nat
  | ClickRetry
  | ClickNewVideo
  | ClickTryAgain
  | ClickNewProject
  | ClickSceneButton nat
  | SceneSettled nat Remote nat
  | OrphanSettled nat Remote nat
  | ApiKeyMissing
  | ApiKeyContinue

text \<open>
  The props \<^verbatim>\<open>App\<close> passes to \<^verbatim>\<open>DirectorView\<close>:
  \<^verbatim>\<open>lastConfig?.model || VeoModel.VEO_FAST\<close> and its two siblings.
\<close>

definition director_params :: "App \<Rightarrow> string StoryboardScene \<Rightarrow> GenerateVideoParams" where
  "director_params s scene =
     (case lastConfig s of
        Some c \<Rightarrow>
          scene_params (GenerateVideoParams.model c) (GenerateVideoParams.aspectRatio c)
            (GenerateVideoParams.resolution c) scene
      | None \<Rightarrow> scene_params VEO_FAST LANDSCAPE P720 scene)"

text \<open>
  One step. An event that the rendered page does not offer leaves the state as it is.
  \<^item> \<open>Submit\<close>: the form is rendered in \<^verbatim>\<open>IDLE\<close> only and its button is disabled while
    \<^verbatim>\<open>isAnalyzing\<close>; \<^verbatim>\<open>handleSubmit\<close> starts the script analysis in \<^verbatim>\<open>DIRECTOR\<close> mode and
    calls \<^verbatim>\<open>onGenerate\<close> otherwise. The button is also disabled on a blank prompt; that
    guard only removes submissions and is left out.
  \<^item> \<open>AnalysisSettled\<close>: \<^verbatim>\<open>handleDirectorAnalysis\<close> after \<^verbatim>\<open>await parseScript\<close>; success
    calls \<^verbatim>\<open>onDirectorParse\<close>, which mounts the director view on the parsed scenes;
    a throw is caught: \<^verbatim>\<open>console.error(err)\<close>, then
    \<^verbatim>\<open>alert("Analysis failed. Try simplifying the script.")\<close>; either way \<^verbatim>\<open>isAnalyzing\<close> is
    cleared. The event carries what \<^verbatim>\<open>parseScript\<close> returned or threw, the scenes as
    TypeScript types them.
  \<^item> \<open>ClickRetry\<close>, \<open>ClickNewVideo\<close>: the callbacks \<^verbatim>\<open>onRetry\<close> and \<^verbatim>\<open>onNewVideo\<close> given to
    \<^verbatim>\<open>VideoResult\<close>, rendered in \<^verbatim>\<open>SUCCESS\<close> with a truthy \<^verbatim>\<open>videoUrl\<close>. \<^verbatim>\<open>onRetry\<close> passes
    \<^verbatim>\<open>lastConfig!\<close>; with no last configuration the step does nothing here, and
    \<open>success_has_config\<close> below shows that this never arises.
  \<^item> \<open>ClickTryAgain\<close>: the button of the error panel. \<open>ClickNewProject\<close>: the button of
    the director view, which unmounts it.
  \<^item> \<open>ClickSceneButton\<close>: the button of a scene card, \<^verbatim>\<open>Produce Scene\<close> or \<^verbatim>\<open>Retry\<close>.
  \<^item> \<open>SceneSettled\<close>, \<open>OrphanSettled\<close>: \<^verbatim>\<open>handleGenerateScene\<close> after its \<^verbatim>\<open>await\<close>; its
    \<^verbatim>\<open>catch\<close> starts with \<^verbatim>\<open>console.error(err)\<close>, also when the view is gone.
\<close>

fun thrown_by :: "'a outcome \<Rightarrow> thrown list" where
  "thrown_by (Threw err) = [err]"
| "thrown_by _ = []"

fun step :: "ui_event \<Rightarrow> UI \<Rightarrow> UI" where
  "step (Submit params) ui =
     (if appState (app ui) = IDLE \<and> \<not> isAnalyzing ui then
        (if mode params = DIRECTOR then ui\<lparr>isAnalyzing := True\<rparr>
         else ui\<lparr>app := handleGenerate_begin params (app ui), generating := Some params\<rparr>)
      else ui)"
| "step (AnalysisSettled r) ui =
     (if isAnalyzing ui then
        (case r of
           Inr parsed \<Rightarrow>
             ui\<lparr>app := handleDirectorParse parsed (app ui),
                director := Some \<lparr>scenes = parsed, globalError = None\<rparr>,
                isAnalyzing := False\<rparr>
         | Inl err \<Rightarrow>
             ui\<lparr>console := console ui @ [err],
                alerts := alerts ui @ [''Analysis failed. Try simplifying the script.''],
                isAnalyzing := False\<rparr>)
      else ui)"
| "step (GenerationSettled remote fuel) ui =
     (case generating ui of
        None \<Rightarrow> ui
      | Some params \<Rightarrow>
          (case generateVideo remote fuel params of
             (tr, Pending) \<Rightarrow> ui
           | (tr, out) \<Rightarrow>
               ui\<lparr>app := handleGenerate_settle out (app ui),
                  generating := None,
                  log := log ui @ tr\<rparr>))"
| "step ClickRetry ui =
     (if appState (app ui) = SUCCESS \<and> App.videoUrl (app ui) \<noteq> None
         \<and> App.videoUrl (app ui) \<noteq> Some [] then
        (case lastConfig (app ui) of
           Some params \<Rightarrow>
             ui\<lparr>app := handleGenerate_begin params (app ui), generating := Some params\<rparr>
         | None \<Rightarrow> ui)
      else ui)"
| "step ClickNewVideo ui =
     (if appState (app ui) = SUCCESS \<and> App.videoUrl (app ui) \<noteq> None
         \<and> App.videoUrl (app ui) \<noteq> Some [] then
        ui\<lparr>app := handleNewVideo (app ui)\<rparr>
      else ui)"
| "step ClickTryAgain ui =
     (if appState (app ui) = ERROR then ui\<lparr>app := handleNewVideo (app ui)\<rparr> else ui)"
| "step ClickNewProject ui =
     (if appState (app ui) = DIRECTOR_READY then
        ui\<lparr>app := handleNewVideo (app ui),
           director := None,
           orphaned := orphaned ui @ map snd (producing ui),
           producing := []\<rparr>
      else ui)"
| "step (ClickSceneButton index) ui =
     (case director ui of
        None \<Rightarrow> ui
      | Some d \<Rightarrow>
          if appState (app ui) = DIRECTOR_READY \<and> index < length (scenes d)
             \<and> scene_card_button (StoryboardScene.status (scenes d ! index)) \<noteq> None then
            ui\<lparr>director := Some (handleGenerateScene_begin index d),
               producing := (index, director_params (app ui) (scenes d ! index)) # producing ui\<rparr>
          else ui)"
| "step (SceneSettled index remote fuel) ui =
     (case map_of (producing ui) index of
        None \<Rightarrow> ui
      | Some params \<Rightarrow>
          (case generateVideo remote fuel params of
             (tr, Pending) \<Rightarrow> ui
           | (tr, out) \<Rightarrow>
               ui\<lparr>director := map_option (handleGenerateScene_settle index out) (director ui),
                  producing := filter (\<lambda>(i, _). i \<noteq> index) (producing ui),
                  log := log ui @ tr,
                  console := console ui @ thrown_by out\<rparr>))"
| "step (OrphanSettled k remote fuel) ui =
     (if k < length (orphaned ui) then
        (case generateVideo remote fuel (orphaned ui ! k) of
           (tr, Pending) \<Rightarrow> ui
         | (tr, out) \<Rightarrow>
             ui\<lparr>orphaned := take k (orphaned ui) @ drop (Suc k) (orphaned ui),
                log := log ui @ tr,
                console := console ui @ thrown_by out\<rparr>)
      else ui)"
| "step ApiKeyMissing ui = ui\<lparr>app := (app ui)\<lparr>showApiKeyDialog := True\<rparr>\<rparr>"
| "step ApiKeyContinue ui = ui\<lparr>app := (app ui)\<lparr>showApiKeyDialog := False\<rparr>\<rparr>"

text \<open>A run of the page: the events in order, from a given state.\<close>

fun run :: "ui_event list \<Rightarrow> UI \<Rightarrow> UI" where
  "run [] ui = ui"
| "run (e # es) ui = run es (step e ui)"

text \<open>
  The object URLs a trace has created, and those still alive at its end: created, and
  not revoked afterwards.
\<close>

fun created_object_urls :: "event list \<Rightarrow> string list" where
  "created_object_urls [] = []"
| "created_object_urls (CreateObjectURL b u # tr) = u # created_object_urls tr"
| "created_object_urls (_ # tr) = created_object_urls tr"

fun live_object_urls :: "event list \<Rightarrow> string list" where
  "live_object_urls [] = []"
| "live_object_urls (CreateObjectURL b u # tr) =
     (if RevokeObjectURL u \<in> set tr then live_object_urls tr else u # live_object_urls tr)"
| "live_object_urls (_ # tr) = live_object_urls tr"

text \<open>
  The number of \<^verbatim>\<open>generateVideo\<close> calls that have been started and have not settled,
  and the events that are an act of the user (the others are calls settling and the
  API-key check at mount).
\<close>

definition calls_in_flight :: "UI \<Rightarrow> nat" where
  "calls_in_flight ui =
     (case generating ui of None \<Rightarrow> 0 | Some _ \<Rightarrow> 1) + length (producing ui) +
     length (orphaned ui)"

fun is_click :: "ui_event \<Rightarrow> bool" where
  "is_click (Submit _) = True"
| "is_click ClickRetry = True"
| "is_click ClickNewVideo = True"
| "is_click ClickTryAgain = True"
| "is_click ClickNewProject = True"
| "is_click (ClickSceneButton _) = True"
| "is_click ApiKeyContinue = True"
| "is_click _ = False"


text \<open>
  What holds in every state the page can reach: a pending \<^verbatim>\<open>generateVideo\<close> call of
  \<^verbatim>\<open>handleGenerate\<close> goes with \<^verbatim>\<open>LOADING\<close> and with the configuration it was given; a
  pending analysis goes with \<^verbatim>\<open>IDLE\<close>; the director view is mounted exactly in
  \<^verbatim>\<open>DIRECTOR_READY\<close>, and only a mounted view has calls of its own in flight.
\<close>

definition invariant :: "UI \<Rightarrow> bool" where
  "invariant ui =
     ((appState (app ui) = LOADING) = (generating ui \<noteq> None) \<and>
      (generating ui \<noteq> None \<longrightarrow> lastConfig (app ui) = generating ui) \<and>
      (isAnalyzing ui \<longrightarrow> appState (app ui) = IDLE) \<and>
      (appState (app ui) = SUCCESS \<longrightarrow> lastConfig (app ui) \<noteq> None) \<and>
      (appState (app ui) = DIRECTOR_READY) = (director ui \<noteq> None) \<and>
      (producing ui \<noteq> [] \<longrightarrow> director ui \<noteq> None))"

section \<open>Auxiliary definitions for the proofs\<close>

text \<open>The trace of the loop: one wait and one status request per iteration.\<close>

definition pairs :: "(GenerateVideosOperation \<times> (thrown + GenerateVideosOperation)) list \<Rightarrow> event list" where
  "pairs ps = concat (map (\<lambda>(operation, r). [SetTimeout 10000, GetVideosOperation operation r]) ps)"

text \<open>
  A concrete run: the job is submitted, the first status request finds it running, the
  second finds it done, the video is fetched.
\<close>

definition demo_params :: GenerateVideoParams where
  "demo_params =
     \<lparr>GenerateVideoParams.prompt = ''a fox at dawn'',
      model = VEO_FAST,
      aspectRatio = LANDSCAPE,
      resolution = P720,
      mode = TEXT_TO_VIDEO,
      startFrame = None,
      endFrame = None,
      referenceImages = None,
      inputVideoObject = None,
      isLooping = False\<rparr>"

definition demo_video :: Video where
  "demo_video = \<lparr>Video.uri = Some ''https://host/v1?alt=media''\<rparr>"

definition op_running :: GenerateVideosOperation where
  "op_running = \<lparr>is_done = False, response = None\<rparr>"

definition op_finished :: GenerateVideosOperation where
  "op_finished =
     \<lparr>is_done = True,
      response = Some \<lparr>generatedVideos = Some [\<lparr>GeneratedVideo.video = Some demo_video\<rparr>]\<rparr>\<rparr>"

definition demo_remote :: Remote where
  "demo_remote =
     \<lparr>API_KEY = Some ''k'',
      generateVideos = (\<lambda>_. Inr op_running),
      getVideosOperation = (\<lambda>n _. if n < 1 then Inr op_running else Inr op_finished),
      decodeURIComponent = Inr,
      fetch = (\<lambda>_. Inr \<lparr>ok = True, status = 200, blob = Inr ''bytes''\<rparr>),
      createObjectURL = (\<lambda>_. ''blob:1'')\<rparr>"

definition demo_payload :: GenerateVideosPayload where
  "demo_payload =
     \<lparr>model = VEO_FAST,
      config =
        \<lparr>numberOfVideos = 1, resolution = P720, aspectRatio = Some LANDSCAPE,
         lastFrame = None, referenceImages = None\<rparr>,
      prompt = Some ''a fox at dawn'',
      image = None,
      video = None\<rparr>"

definition demo_result :: GenerateVideoResult where
  "demo_result =
     \<lparr>objectUrl = ''blob:1'', blob = ''bytes'', uri = ''https://host/v1?alt=media'',
      video = demo_video\<rparr>"

definition demo_trace :: "event list" where
  "demo_trace =
     [GenerateVideos demo_payload (Inr op_running),
      SetTimeout 10000,
      GetVideosOperation op_running (Inr op_running),
      SetTimeout 10000,
      GetVideosOperation op_running (Inr op_finished),
      Fetch ''https://host/v1?alt=media&key=k'',
      CreateObjectURL ''bytes'' ''blob:1'']"

definition demo_frame :: ImageFile where
  "demo_frame = \<lparr>file_type = [], base64 = ''AAAA''\<rparr>"

definition demo_end_frame :: ImageFile where
  "demo_end_frame = \<lparr>file_type = ''image/jpeg'', base64 = ''BBBB''\<rparr>"

definition demo_loop_params :: GenerateVideoParams where
  "demo_loop_params =
     demo_params\<lparr>mode := FRAMES_TO_VIDEO, startFrame := Some demo_frame,
                 endFrame := Some demo_end_frame, isLooping := True\<rparr>"

definition demo_extend_params :: GenerateVideoParams where
  "demo_extend_params = demo_params\<lparr>mode := EXTEND_VIDEO\<rparr>"

definition keyless_remote :: Remote where
  "keyless_remote = demo_remote\<lparr>API_KEY := None\<rparr>"

definition failing_remote :: Remote where
  "failing_remote = demo_remote\<lparr>generateVideos := (\<lambda>_. Inl (Error ''quota exceeded''))\<rparr>"

definition demo_director_params :: GenerateVideoParams where
  "demo_director_params = demo_params\<lparr>mode := DIRECTOR\<rparr>"

definition demo_scene :: "string StoryboardScene" where
  "demo_scene =
     \<lparr>scene_id = ''scene-0'', title = ''Dawn'', prompt = ''a fox at dawn'',
      videoUrl = None, videoObject = None, status = Scene_idle\<rparr>"

definition demo_scene2 :: "string StoryboardScene" where
  "demo_scene2 =
     \<lparr>scene_id = ''scene-1'', title = ''Noon'', prompt = ''the fox sleeps'',
      videoUrl = None, videoObject = None, status = Scene_idle\<rparr>"

definition demo_director :: DirectorView where
  "demo_director = \<lparr>scenes = [demo_scene, demo_scene2], globalError = None\<rparr>"

definition demo_director_done :: DirectorView where
  "demo_director_done =
     \<lparr>scenes =
        [demo_scene\<lparr>StoryboardScene.status := Scene_done,
                    StoryboardScene.videoUrl := Some ''blob:1'',
                    videoObject := Some demo_video\<rparr>,
         demo_scene2],
      globalError = None\<rparr>"

definition demo_response_text :: string where
  \<open>demo_response_text =
     ''[{"title":"Dawn","prompt":"a fox at dawn"},{"title":"Noon","prompt":"the fox sleeps"}]''\<close>

definition demo_generateContent :: "string \<Rightarrow> thrown + string option" where
  "demo_generateContent request = Inr (Some demo_response_text)"


definition demo_JSON_parse :: "string \<Rightarrow> thrown + nat json" where
  "demo_JSON_parse text =
     (if text = demo_response_text then
        Inr (JArray
               [JObject [(''title'', JString ''Dawn''), (''prompt'', JString ''a fox at dawn'')],
                JObject [(''title'', JString ''Noon''), (''prompt'', JString ''the fox sleeps'')]])
      else Inl (Error ''Unexpected token''))"

definition demo_parsed :: "(nat json option) StoryboardScene list" where
  "demo_parsed =
     [\<lparr>scene_id = ''scene-0'', title = Some (JString ''Dawn''),
       prompt = Some (JString ''a fox at dawn''),
       videoUrl = None, videoObject = None, status = Scene_idle\<rparr>,
      \<lparr>scene_id = ''scene-1'', title = Some (JString ''Noon''),
       prompt = Some (JString ''the fox sleeps''),
       videoUrl = None, videoObject = None, status = Scene_idle\<rparr>]"

section \<open>Numbers in template literals\<close>

lemma digit_value_digit: "d < 10 \<Longrightarrow> digit_value (''0123456789'' ! d) = d"
proof -
  assume "d < 10"
  then have "d = 0 \<or> d = 1 \<or> d = 2 \<or> d = 3 \<or> d = 4 \<or> d = 5 \<or> d = 6 \<or> d = 7 \<or>
    d = 8 \<or> d = 9"
    by presburger
  then show ?thesis by (elim disjE) simp_all
qed

lemma nat_of_string_of_nat: "nat_of_string (string_of_nat n) = n"
proof (induction n rule: string_of_nat.induct)
  case (1 n)
  show ?case
  proof (cases "n < 10")
    case True
    then show ?thesis
      using digit_value_digit [of n] by (simp add: string_of_nat.simps [of n] del: digit_value.simps)
  next
    case False
    with "1.IH" have "nat_of_string (string_of_nat (n div 10)) = n div 10" by simp
    moreover have "digit_value (''0123456789'' ! (n mod 10)) = n mod 10"
      by (rule digit_value_digit) simp
    ultimately show ?thesis
      using False by (simp add: string_of_nat.simps [of n] del: digit_value.simps)
  qed
qed

lemma string_of_nat_inj: "string_of_nat m = string_of_nat n \<Longrightarrow> m = n"
  by (metis nat_of_string_of_nat)

section \<open>Properties of the poll loop and of the trace\<close>

lemma poll_Suc_Inr:
  "\<not> is_done operation \<Longrightarrow> getVideosOperation remote n operation = Inr o1 \<Longrightarrow>
     poll remote (Suc fuel) n operation =
       (SetTimeout 10000 # GetVideosOperation operation (Inr o1) # fst (poll remote fuel (Suc n) o1),
        snd (poll remote fuel (Suc n) o1))"
  by (simp add: case_prod_beta)

lemma poll_Suc_Inl:
  "\<not> is_done operation \<Longrightarrow> getVideosOperation remote n operation = Inl e \<Longrightarrow>
     poll remote (Suc fuel) n operation =
       ([SetTimeout 10000, GetVideosOperation operation (Inl e)], Threw e)"
  by simp

lemma poll_finished:
  "is_done operation \<Longrightarrow> poll remote fuel n operation = ([], Returned operation)"
  by (cases fuel) simp_all

lemma poll_events:
  "e \<in> set (fst (poll remote fuel n operation)) \<Longrightarrow>
     e = SetTimeout 10000 \<or> (\<exists>operation' r. e = GetVideosOperation operation' r \<and> \<not> is_done operation')"
proof (induction fuel arbitrary: n operation)
  case 0
  then show ?case by (simp split: if_splits)
next
  case (Suc fuel)
  show ?case
  proof (cases "is_done operation")
    case True
    with Suc.prems show ?thesis by (simp add: poll_finished)
  next
    case False
    show ?thesis
    proof (cases "getVideosOperation remote n operation")
      case (Inl e')
      with False Suc.prems show ?thesis by (auto simp: poll_Suc_Inl simp del: poll.simps)
    next
      case (Inr o1)
      with False Suc.prems Suc.IH [of "Suc n" o1] show ?thesis
        by (auto simp: poll_Suc_Inr simp del: poll.simps)
    qed
  qed
qed

lemma poll_Returned:
  "poll remote fuel n operation = (tr, Returned operation') \<Longrightarrow>
   reported_done e = is_done operation \<Longrightarrow>
     is_done operation' \<and> reported_done (last (e # tr))"
proof (induction fuel arbitrary: n operation tr e)
  case 0
  then show ?case by (auto split: if_splits)
next
  case (Suc fuel)
  show ?case
  proof (cases "is_done operation")
    case True
    with Suc.prems show ?thesis by auto
  next
    case False
    with Suc.prems obtain o1 tr1 where
      r: "getVideosOperation remote n operation = Inr o1" and
      p: "poll remote fuel (Suc n) o1 = (tr1, Returned operation')" and
      tr: "tr = [SetTimeout 10000, GetVideosOperation operation (Inr o1)] @ tr1"
      by (auto simp: Let_def split: sum.splits prod.splits)
    from Suc.IH [OF p, of "GetVideosOperation operation (Inr o1)"]
    show ?thesis using tr by simp
  qed
qed

lemma poll_Pending:
  "poll remote fuel n operation = (tr, Pending) \<Longrightarrow>
   reported_done e = is_done operation \<Longrightarrow>
     length (filter is_GetVideosOperation tr) = fuel \<and> \<not> reported_done (last (e # tr))"
proof (induction fuel arbitrary: n operation tr e)
  case 0
  then show ?case by (auto split: if_splits)
next
  case (Suc fuel)
  show ?case
  proof (cases "is_done operation")
    case True
    with Suc.prems show ?thesis by auto
  next
    case False
    with Suc.prems obtain o1 tr1 where
      r: "getVideosOperation remote n operation = Inr o1" and
      p: "poll remote fuel (Suc n) o1 = (tr1, Pending)" and
      tr: "tr = [SetTimeout 10000, GetVideosOperation operation (Inr o1)] @ tr1"
      by (auto simp: Let_def split: sum.splits prod.splits)
    from Suc.IH [OF p, of "GetVideosOperation operation (Inr o1)"]
    show ?thesis using tr by simp
  qed
qed

lemma poll_Returned_answer:
  "poll remote fuel n operation = (tr, Returned operation') \<Longrightarrow>
   answer e = Some (Inr operation) \<Longrightarrow>
     is_done operation' \<and> answer (last (e # tr)) = Some (Inr operation')"
proof (induction fuel arbitrary: n operation tr e)
  case 0
  then show ?case by (auto split: if_splits)
next
  case (Suc fuel)
  show ?case
  proof (cases "is_done operation")
    case True
    with Suc.prems show ?thesis by auto
  next
    case False
    with Suc.prems obtain o1 tr1 where
      r: "getVideosOperation remote n operation = Inr o1" and
      p: "poll remote fuel (Suc n) o1 = (tr1, Returned operation')" and
      tr: "tr = [SetTimeout 10000, GetVideosOperation operation (Inr o1)] @ tr1"
      by (auto simp: Let_def split: sum.splits prod.splits)
    from Suc.IH [OF p, of "GetVideosOperation operation (Inr o1)"]
    show ?thesis using tr by simp
  qed
qed

lemma poll_Threw_answer:
  "poll remote fuel n operation = (tr, Threw err) \<Longrightarrow>
     tr \<noteq> [] \<and> answer (last tr) = Some (Inl err)"
proof (induction fuel arbitrary: n operation tr)
  case 0
  then show ?case by (auto split: if_splits)
next
  case (Suc fuel)
  show ?case
  proof (cases "is_done operation")
    case True
    with Suc.prems show ?thesis by auto
  next
    case False
    show ?thesis
    proof (cases "getVideosOperation remote n operation")
      case (Inl e')
      with False Suc.prems show ?thesis by (auto simp: poll_Suc_Inl simp del: poll.simps)
    next
      case (Inr o1)
      with False Suc.prems have
        p: "poll remote fuel (Suc n) o1 = (fst (poll remote fuel (Suc n) o1), Threw err)" and
        tr: "tr = SetTimeout 10000 # GetVideosOperation operation (Inr o1) #
                   fst (poll remote fuel (Suc n) o1)"
        by (auto simp: poll_Suc_Inr prod_eq_iff simp del: poll.simps)
      from Suc.IH [OF p] show ?thesis using tr by simp
    qed
  qed
qed


lemma poll_shape: "\<exists>ps. fst (poll remote fuel n operation) = pairs ps"
proof (induction fuel arbitrary: n operation)
  case 0
  have "fst (poll remote 0 n operation) = pairs []" by (simp add: pairs_def)
  then show ?case ..
next
  case (Suc fuel)
  show ?case
  proof (cases "is_done operation")
    case True
    then have "fst (poll remote (Suc fuel) n operation) = pairs []" by (simp add: pairs_def)
    then show ?thesis ..
  next
    case False
    show ?thesis
    proof (cases "getVideosOperation remote n operation")
      case (Inl e)
      with False have "fst (poll remote (Suc fuel) n operation) = pairs [(operation, Inl e)]"
        by (simp add: pairs_def)
      then show ?thesis ..
    next
      case (Inr o1)
      from Suc.IH [of "Suc n" o1] obtain ps where
        ps: "fst (poll remote fuel (Suc n) o1) = pairs ps" ..
      with False Inr have "fst (poll remote (Suc fuel) n operation) = pairs ((operation, Inr o1) # ps)"
        by (simp add: pairs_def poll_Suc_Inr del: poll.simps)
      then show ?thesis ..
    qed
  qed
qed

lemma pairs_Cons:
  "pairs ((operation, r) # ps) = SetTimeout 10000 # GetVideosOperation operation r # pairs ps"
  by (simp add: pairs_def)

lemma pairs_Nil: "pairs [] = []"
  by (simp add: pairs_def)

lemma pairs_next_poll:
  assumes eq: "pairs ps @ tail = mid @ p2 # post"
    and p2: "is_GetVideosOperation p2"
    and mid: "\<forall>e\<in>set mid. \<not> is_GetVideosOperation e"
    and tail: "\<forall>e\<in>set tail. \<not> is_GetVideosOperation e"
  shows "mid = [SetTimeout 10000]"
proof (cases ps)
  case Nil
  with eq have "p2 \<in> set tail" by (simp add: pairs_Nil)
  with tail p2 show ?thesis by blast
next
  case (Cons a ps')
  obtain operation r where a: "a = (operation, r)" by (cases a)
  from eq Cons a have eq':
    "SetTimeout 10000 # GetVideosOperation operation r # (pairs ps' @ tail) = mid @ p2 # post"
    by (simp add: pairs_Cons)
  show ?thesis
  proof (cases mid)
    case Nil
    with eq' p2 show ?thesis by auto
  next
    case (Cons m ms)
    note mid_eq = this
    show ?thesis
    proof (cases ms)
      case Nil
      with eq' mid_eq show ?thesis by simp
    next
      case (Cons m' ms')
      with eq' mid_eq have "m' = GetVideosOperation operation r" by simp
      with mid mid_eq Cons show ?thesis by simp
    qed
  qed
qed

lemma pairs_between:
  assumes eq: "pairs ps @ tail = pre @ p1 # mid @ p2 # post"
    and p1: "is_GetVideosOperation p1"
    and p2: "is_GetVideosOperation p2"
    and mid: "\<forall>e\<in>set mid. \<not> is_GetVideosOperation e"
    and tail: "\<forall>e\<in>set tail. \<not> is_GetVideosOperation e"
  shows "mid = [SetTimeout 10000]"
  using eq
proof (induction ps arbitrary: pre)
  case Nil
  then have "p1 \<in> set tail" by (simp add: pairs_Nil)
  with tail p1 show ?case by blast
next
  case (Cons a ps)
  obtain operation r where a: "a = (operation, r)" by (cases a)
  from Cons.prems a have eq':
    "SetTimeout 10000 # GetVideosOperation operation r # (pairs ps @ tail)
       = pre @ p1 # mid @ p2 # post"
    by (simp add: pairs_Cons)
  show ?case
  proof (cases pre)
    case Nil
    with eq' p1 show ?thesis by auto
  next
    case (Cons x pre1)
    note pre_eq = this
    show ?thesis
    proof (cases pre1)
      case Nil
      with eq' pre_eq have "pairs ps @ tail = mid @ p2 # post" by simp
      then show ?thesis by (rule pairs_next_poll [OF _ p2 mid tail])
    next
      case (Cons y pre2)
      with eq' pre_eq have "pairs ps @ tail = pre2 @ p1 # mid @ p2 # post" by simp
      then show ?thesis by (rule Cons.IH)
    qed
  qed
qed

lemma pairs_events:
  "e \<in> set (pairs ps) \<Longrightarrow>
     (e = SetTimeout 10000 \<or> is_GetVideosOperation e) \<and>
     \<not> is_GenerateVideos e \<and> \<not> is_Fetch e"
  by (induction ps) (auto simp: pairs_Nil pairs_Cons)


lemma fetch_video_trace:
  "fetch_video remote operation = (tr, res) \<Longrightarrow>
     tr = [] \<and> res \<noteq> Pending \<or> (\<exists>u. tr = [Fetch u] \<and> (\<exists>e. res = Threw e)) \<or>
     (\<exists>u b r. tr = [Fetch u, CreateObjectURL b (objectUrl r)] \<and> res = Returned r)"
  by (auto simp: fetch_video_def Let_def
           split: option.splits list.splits sum.splits if_splits)



lemma new_GoogleGenAI_Some [simp]: "new_GoogleGenAI (Some key) = None"
  by (simp add: new_GoogleGenAI_def)

lemma new_GoogleGenAI_None [simp]:
  "new_GoogleGenAI None = Some (Error ''An API Key must be set when running in a browser'')"
  by (simp add: new_GoogleGenAI_def)

lemma generateVideo_no_client:
  "API_KEY remote = None \<Longrightarrow>
     generateVideo remote fuel params =
       ([], Threw (Error ''An API Key must be set when running in a browser''))"
  by (simp add: generateVideo_def)

lemma generateVideo_with_key:
  assumes "API_KEY remote = Some key"
  shows "generateVideo remote fuel params =
     (case build_payload params of
        Inl e \<Rightarrow> ([], Threw e)
      | Inr generateVideoPayload \<Rightarrow>
          (let r = generateVideos remote generateVideoPayload;
               submitted = GenerateVideos generateVideoPayload r
           in case r of
                Inl e \<Rightarrow> ([submitted], Threw e)
              | Inr operation \<Rightarrow>
                  (case poll remote fuel 0 operation of
                     (tr, Pending) \<Rightarrow> (submitted # tr, Pending)
                   | (tr, Threw e) \<Rightarrow> (submitted # tr, Threw e)
                   | (tr, Returned operation') \<Rightarrow>
                       (case fetch_video remote operation' of
                          (tr', res) \<Rightarrow> (submitted # tr @ tr', res)))))"
  using assms by (simp add: generateVideo_def)

lemma generateVideo_shape:
  assumes run: "generateVideo remote fuel params = (tr, out)"
    and key: "API_KEY remote = Some key"
    and pl: "build_payload params = Inr pl"
  shows "\<exists>ps tail.
           tr = GenerateVideos pl (generateVideos remote pl) # pairs ps @ tail \<and>
           (\<forall>operation r. GetVideosOperation operation r \<in> set (pairs ps) \<longrightarrow>
              \<not> is_done operation) \<and>
           (tail = [] \<or> (\<exists>u. tail = [Fetch u]) \<or>
            (\<exists>u b r. tail = [Fetch u, CreateObjectURL b (objectUrl r)] \<and> out = Returned r)) \<and>
           (tail \<noteq> [] \<longrightarrow>
              reported_done (last (GenerateVideos pl (generateVideos remote pl) # pairs ps))) \<and>
           (out = Pending \<longrightarrow>
              tail = [] \<and> length (filter is_GetVideosOperation (pairs ps)) = fuel \<and>
              \<not> reported_done (last (GenerateVideos pl (generateVideos remote pl) # pairs ps))) \<and>
           (out \<noteq> Pending \<longrightarrow>
              (\<exists>err. answer (last (GenerateVideos pl (generateVideos remote pl) # pairs ps))
                        = Some (Inl err) \<and> out = Threw err \<and> tail = []) \<or>
              (\<exists>operation.
                 answer (last (GenerateVideos pl (generateVideos remote pl) # pairs ps))
                   = Some (Inr operation) \<and>
                 is_done operation \<and> fetch_video remote operation = (tail, out)))"
    (is "\<exists>ps tail. ?shape ps tail")
proof (cases "generateVideos remote pl")
  case (Inl e)
  with run pl have "tr = [GenerateVideos pl (generateVideos remote pl)]" and "out = Threw e"
    by (auto simp: generateVideo_with_key [OF key])
  with Inl have "?shape [] []" by (simp add: pairs_Nil)
  then show ?thesis by blast
next
  case (Inr operation)
  let ?g = "GenerateVideos pl (generateVideos remote pl)"
  obtain tr1 res1 where p: "poll remote fuel 0 operation = (tr1, res1)"
    by (cases "poll remote fuel 0 operation")
  from poll_shape [of remote fuel 0 operation] p obtain ps where ps: "tr1 = pairs ps"
    by auto
  have nd: "\<forall>operation r. GetVideosOperation operation r \<in> set (pairs ps) \<longrightarrow>
              \<not> is_done operation"
    using poll_events [of _ remote fuel 0 operation] p ps by auto
  have g: "reported_done ?g = is_done operation" using Inr by simp
  have a: "answer ?g = Some (Inr operation)" using Inr by simp
  show ?thesis
  proof (cases res1)
    case Pending
    with run pl Inr p have "tr = ?g # pairs ps" and "out = Pending"
      by (auto simp: generateVideo_with_key [OF key] ps)
    moreover from poll_Pending [OF p [unfolded Pending] g]
    have "length (filter is_GetVideosOperation (pairs ps)) = fuel"
      and "\<not> reported_done (last (?g # pairs ps))"
      by (simp_all add: ps)
    ultimately have "?shape ps []" using nd by simp
    then show ?thesis by blast
  next
    case (Threw e)
    with run pl Inr p have "tr = ?g # pairs ps" and "out = Threw e"
      by (auto simp: generateVideo_with_key [OF key] ps)
    moreover from poll_Threw_answer [OF p [unfolded Threw]]
    have "answer (last (?g # pairs ps)) = Some (Inl e)" by (simp add: ps)
    ultimately have "?shape ps []" using nd by simp
    then show ?thesis by blast
  next
    case (Returned operation')
    obtain tr2 res2 where f: "fetch_video remote operation' = (tr2, res2)"
      by (cases "fetch_video remote operation'")
    from run pl Inr p Returned f have tr: "tr = ?g # pairs ps @ tr2" and out: "out = res2"
      by (auto simp: generateVideo_with_key [OF key] ps)
    from poll_Returned [OF p [unfolded Returned] g]
    have d: "reported_done (last (?g # pairs ps))" by (simp add: ps)
    from poll_Returned_answer [OF p [unfolded Returned] a]
    have d': "is_done operation'" "answer (last (?g # pairs ps)) = Some (Inr operation')"
      by (simp_all add: ps)
    from fetch_video_trace [OF f] out
    have "(tr2 = [] \<or> (\<exists>u. tr2 = [Fetch u]) \<or>
            (\<exists>u b r. tr2 = [Fetch u, CreateObjectURL b (objectUrl r)] \<and> out = Returned r))"
      and "out \<noteq> Pending"
      by auto
    with tr d nd d' f out have "?shape ps tr2" by simp
    then show ?thesis by blast
  qed
qed

lemma generateVideo_no_payload:
  "API_KEY remote = Some key \<Longrightarrow> build_payload params = Inl e \<Longrightarrow>
     generateVideo remote fuel params = ([], Threw e)"
  by (simp add: generateVideo_def)


lemmas demo_defs =
  demo_params_def demo_video_def op_running_def op_finished_def demo_remote_def
  demo_payload_def demo_result_def demo_trace_def


lemma demo_generateVideo:
  "generateVideo demo_remote 3 demo_params = (demo_trace, Returned demo_result)"
  by (simp add: generateVideo_def build_payload_def fetch_video_def demo_defs
        eval_nat_numeral Let_def)

lemma demo_generateVideo_pending:
  "generateVideo demo_remote 1 demo_params = (take 3 demo_trace, Pending)"
  by (simp add: generateVideo_def build_payload_def fetch_video_def demo_defs Let_def)

section \<open>Claims about generateVideo\<close>



text \<open>
  C2: the poll loop is fixed-interval. Every timer the function awaits is 10000 ms;
  exactly one such wait lies between the submission and the first status request, and
  exactly one between any two consecutive status requests.
\<close>

theorem generateVideo_fixed_interval:
  assumes run: "generateVideo remote fuel params = (tr, out)"
  shows
    "(\<forall>ms. SetTimeout ms \<in> set tr \<longrightarrow> ms = 10000) \<and>
     (\<forall>pre p post.
        tr = pre @ p # post \<and> is_GetVideosOperation p \<and>
        (\<forall>e\<in>set pre. \<not> is_GetVideosOperation e) \<longrightarrow>
        (\<exists>g. is_GenerateVideos g \<and> pre = [g, SetTimeout 10000])) \<and>
     (\<forall>pre p1 mid p2 post.
        tr = pre @ p1 # mid @ p2 # post \<and> is_GetVideosOperation p1 \<and>
        is_GetVideosOperation p2 \<and> (\<forall>e\<in>set mid. \<not> is_GetVideosOperation e) \<longrightarrow>
        mid = [SetTimeout 10000])"
proof -
  consider "tr = []"
    | key pl where "API_KEY remote = Some key" and "build_payload params = Inr pl"
  proof (cases "API_KEY remote")
    case None
    with run have "tr = []" by (simp add: generateVideo_no_client)
    then show ?thesis by (rule that(1))
  next
    case (Some key)
    show ?thesis
    proof (cases "build_payload params")
      case (Inl e)
      with run Some have "tr = []" by (simp add: generateVideo_no_payload)
      then show ?thesis by (rule that(1))
    next
      case (Inr pl)
      with Some show ?thesis by (rule that(2))
    qed
  qed
  then show ?thesis
  proof cases
    case 1
    then show ?thesis by simp
  next
    case (2 key pl)
  let ?g = "GenerateVideos pl (generateVideos remote pl)"
  from generateVideo_shape [OF run 2] obtain ps tail where
    tr: "tr = ?g # pairs ps @ tail" and
    tail: "tail = [] \<or> (\<exists>u. tail = [Fetch u]) \<or>
           (\<exists>u b r. tail = [Fetch u, CreateObjectURL b (objectUrl r)] \<and> out = Returned r)"
    by blast
  have tail_ev: "\<forall>e\<in>set tail. \<not> is_GetVideosOperation e" using tail by auto
  have k1: "\<forall>ms. SetTimeout ms \<in> set tr \<longrightarrow> ms = 10000"
  proof (intro allI impI)
    fix ms assume "SetTimeout ms \<in> set tr"
    with tr tail have "SetTimeout ms \<in> set (pairs ps)" by auto
    from pairs_events [OF this] show "ms = 10000" by simp
  qed
  have k2: "\<forall>pre p post.
        tr = pre @ p # post \<and> is_GetVideosOperation p \<and>
        (\<forall>e\<in>set pre. \<not> is_GetVideosOperation e) \<longrightarrow>
        (\<exists>g. is_GenerateVideos g \<and> pre = [g, SetTimeout 10000])"
  proof (intro allI impI, elim conjE)
    fix pre p post
    assume eq: "tr = pre @ p # post" and p: "is_GetVideosOperation p"
      and pre: "\<forall>e\<in>set pre. \<not> is_GetVideosOperation e"
    from eq tr p obtain pre' where pre': "pre = ?g # pre'"
      by (cases pre) auto
    with eq tr have "pairs ps @ tail = pre' @ p # post" by simp
    from pairs_next_poll [OF this p _ tail_ev] pre pre'
    have "pre' = [SetTimeout 10000]" by simp
    with pre' show "\<exists>g. is_GenerateVideos g \<and> pre = [g, SetTimeout 10000]" by simp
  qed
  have k3: "\<forall>pre p1 mid p2 post.
        tr = pre @ p1 # mid @ p2 # post \<and> is_GetVideosOperation p1 \<and>
        is_GetVideosOperation p2 \<and> (\<forall>e\<in>set mid. \<not> is_GetVideosOperation e) \<longrightarrow>
        mid = [SetTimeout 10000]"
  proof (intro allI impI, elim conjE)
    fix pre p1 mid p2 post
    assume eq: "tr = pre @ p1 # mid @ p2 # post" and p1: "is_GetVideosOperation p1"
      and p2: "is_GetVideosOperation p2"
      and mid: "\<forall>e\<in>set mid. \<not> is_GetVideosOperation e"
    from eq tr p1 obtain pre' where pre': "pre = ?g # pre'"
      by (cases pre) auto
    with eq tr have "pairs ps @ tail = pre' @ p1 # mid @ p2 # post" by simp
    from pairs_between [OF this p1 p2 mid tail_ev]
    show "mid = [SetTimeout 10000]" .
  qed
  show ?thesis by (intro conjI k1 k2 k3)
  qed
qed

text \<open>The wait between the two status requests of the concrete run.\<close>

theorem generateVideo_fixed_interval_witness:
  "generateVideo demo_remote 3 demo_params = (demo_trace, Returned demo_result) \<and>
   demo_trace =
     take 2 demo_trace @ GetVideosOperation op_running (Inr op_running) # [demo_trace ! 3] @
     GetVideosOperation op_running (Inr op_finished) # drop 5 demo_trace \<and>
   [demo_trace ! 3] = [SetTimeout 10000] \<and>
   take 2 demo_trace = [GenerateVideos demo_payload (Inr op_running), SetTimeout 10000]"
proof -
  note T = generateVideo_fixed_interval [OF demo_generateVideo]
  have split: "demo_trace =
     take 2 demo_trace @ GetVideosOperation op_running (Inr op_running) # [demo_trace ! 3] @
     GetVideosOperation op_running (Inr op_finished) # drop 5 demo_trace"
    by (simp add: demo_trace_def)
  from T have "\<forall>pre p1 mid p2 post.
        demo_trace = pre @ p1 # mid @ p2 # post \<and> is_GetVideosOperation p1 \<and>
        is_GetVideosOperation p2 \<and> (\<forall>e\<in>set mid. \<not> is_GetVideosOperation e) \<longrightarrow>
        mid = [SetTimeout 10000]"
    by (elim conjE)
  from this [rule_format, of "take 2 demo_trace" _ "[demo_trace ! 3]"] split
  have "[demo_trace ! 3] = [SetTimeout 10000]"
    by (simp add: demo_trace_def)
  moreover have "take 2 demo_trace = [GenerateVideos demo_payload (Inr op_running), SetTimeout 10000]"
    by (simp add: demo_trace_def)
  ultimately show ?thesis using demo_generateVideo split by (intro conjI)
qed

text \<open>
  C9: in \<^verbatim>\<open>FRAMES_TO_VIDEO\<close> mode with \<^verbatim>\<open>isLooping\<close> set and a start frame present, the
  payload's \<^verbatim>\<open>lastFrame\<close> is built from the start frame (its bytes, and its type or
  \<^verbatim>\<open>image/png\<close>), so it equals the payload's first image; the end frame has no
  influence on the payload; and once the client is constructed this payload is the one
  submitted.
\<close>

theorem generateVideo_looping_last_frame:
  assumes "mode params = FRAMES_TO_VIDEO" and "isLooping params"
    and "startFrame params = Some f"
  shows
    "\<exists>pl.
       build_payload params = Inr pl \<and>
       lastFrame (config pl) =
         Some \<lparr>imageBytes = base64 f,
               mimeType = (if file_type f \<noteq> [] then file_type f else ''image/png'')\<rparr> \<and>
       lastFrame (config pl) = image pl \<and>
       (\<forall>other. build_payload (params\<lparr>endFrame := other\<rparr>) = Inr pl) \<and>
       (\<forall>key. API_KEY remote = Some key \<longrightarrow>
          (\<exists>rest. fst (generateVideo remote fuel params) =
                    GenerateVideos pl (generateVideos remote pl) # rest))"
proof -
  obtain pl where pl: "build_payload params = Inr pl"
    using assms by (auto simp: build_payload_def Let_def)
  have "lastFrame (config pl) = Some (image_of f)" and "image pl = Some (image_of f)"
    and "\<forall>other. build_payload (params\<lparr>endFrame := other\<rparr>) = Inr pl"
    using assms pl by (auto simp: build_payload_def Let_def)
  moreover have "\<forall>key. API_KEY remote = Some key \<longrightarrow>
          (\<exists>rest. fst (generateVideo remote fuel params) =
                    GenerateVideos pl (generateVideos remote pl) # rest)"
  proof (intro allI impI)
    fix key assume key: "API_KEY remote = Some key"
    obtain tr out where run: "generateVideo remote fuel params = (tr, out)"
      by (cases "generateVideo remote fuel params")
    from generateVideo_shape [OF run key pl] obtain rest where
      "tr = GenerateVideos pl (generateVideos remote pl) # rest" by blast
    with run show "\<exists>rest. fst (generateVideo remote fuel params) =
                    GenerateVideos pl (generateVideos remote pl) # rest" by simp
  qed
  ultimately show ?thesis using pl by (auto simp: image_of_def)
qed

text \<open>A looping request that also carries an end frame.\<close>

theorem generateVideo_looping_last_frame_witness:
  "mode demo_loop_params = FRAMES_TO_VIDEO \<and> isLooping demo_loop_params \<and>
   startFrame demo_loop_params = Some demo_frame \<and>
   endFrame demo_loop_params = Some demo_end_frame \<and>
   API_KEY demo_remote = Some ''k'' \<and>
   (\<exists>pl rest.
      build_payload demo_loop_params = Inr pl \<and>
      lastFrame (config pl) = Some \<lparr>imageBytes = ''AAAA'', mimeType = ''image/png''\<rparr> \<and>
      fst (generateVideo demo_remote 3 demo_loop_params) =
        GenerateVideos pl (generateVideos demo_remote pl) # rest)"
proof -
  have h: "mode demo_loop_params = FRAMES_TO_VIDEO" "isLooping demo_loop_params"
    "startFrame demo_loop_params = Some demo_frame"
    "endFrame demo_loop_params = Some demo_end_frame"
    by (simp_all add: demo_loop_params_def demo_params_def)
  have key: "API_KEY demo_remote = Some ''k''" by (simp add: demo_remote_def)
  from generateVideo_looping_last_frame [OF h(1-3), of demo_remote 3] key
  obtain pl rest where
    "build_payload demo_loop_params = Inr pl"
    "lastFrame (config pl) = Some \<lparr>imageBytes = ''AAAA'', mimeType = ''image/png''\<rparr>"
    "fst (generateVideo demo_remote 3 demo_loop_params) =
        GenerateVideos pl (generateVideos demo_remote pl) # rest"
    by (auto simp: demo_frame_def)
  then show ?thesis using h key by blast
qed

text \<open>
  C10, as the code has it: in \<^verbatim>\<open>EXTEND_VIDEO\<close> mode without an input video object the
  function throws with an empty trace, so no request has been made. What it throws is
  \<^verbatim>\<open>An input video object is required to extend a video.\<close> when the API key is set; when
  it is not, the client constructor, which comes first, throws
  \<^verbatim>\<open>An API Key must be set when running in a browser\<close>.
\<close>

theorem generateVideo_extend_without_video:
  assumes "mode params = EXTEND_VIDEO" and "inputVideoObject params = None"
  shows
    "fst (generateVideo remote fuel params) = [] \<and>
     (\<forall>key. API_KEY remote = Some key \<longrightarrow>
        generateVideo remote fuel params =
          ([], Threw (Error ''An input video object is required to extend a video.''))) \<and>
     (API_KEY remote = None \<longrightarrow>
        generateVideo remote fuel params =
          ([], Threw (Error ''An API Key must be set when running in a browser'')))"
proof (cases "API_KEY remote")
  case None
  then show ?thesis by (simp add: generateVideo_no_client)
next
  case (Some key)
  have "build_payload params =
          Inl (Error ''An input video object is required to extend a video.'')"
    using assms by (simp add: build_payload_def Let_def)
  from generateVideo_no_payload [OF Some this] Some show ?thesis by simp
qed

text \<open>
  C10 as stated has the error about the input video thrown on every such call. Without
  an API key the same call throws the constructor's error instead.
\<close>

theorem extend_without_video_and_key:
  "mode demo_extend_params = EXTEND_VIDEO \<and> inputVideoObject demo_extend_params = None \<and>
   generateVideo keyless_remote 3 demo_extend_params =
     ([], Threw (Error ''An API Key must be set when running in a browser'')) \<and>
   generateVideo keyless_remote 3 demo_extend_params \<noteq>
     ([], Threw (Error ''An input video object is required to extend a video.''))"
  by (simp add: generateVideo_def keyless_remote_def demo_remote_def demo_extend_params_def
        demo_params_def)

text \<open>An extend request without a video, with the key set.\<close>

theorem generateVideo_extend_without_video_witness:
  "mode demo_extend_params = EXTEND_VIDEO \<and> inputVideoObject demo_extend_params = None \<and>
   API_KEY demo_remote = Some ''k'' \<and>
   generateVideo demo_remote 3 demo_extend_params =
     ([], Threw (Error ''An input video object is required to extend a video.''))"
proof -
  have h: "mode demo_extend_params = EXTEND_VIDEO" "inputVideoObject demo_extend_params = None"
    by (simp_all add: demo_extend_params_def demo_params_def)
  have key: "API_KEY demo_remote = Some ''k''" by (simp add: demo_remote_def)
  from generateVideo_extend_without_video [OF h, of demo_remote 3] key
  have "generateVideo demo_remote 3 demo_extend_params =
     ([], Threw (Error ''An input video object is required to extend a video.''))"
    by blast
  with h key show ?thesis by (intro conjI)
qed

section \<open>Properties of the page\<close>

lemma invariant_initial: "invariant initial_UI"
  by (simp add: invariant_def initial_UI_def initial_App_def)

lemmas handler_defs =
  handleGenerate_begin_def handleDirectorParse_def handleNewVideo_def

lemma settle_cases:
  "out = Pending \<or> (\<exists>e. out = Threw e) \<or> (\<exists>r. out = Returned r)"
  by (cases out) auto

lemma invariant_step: "invariant ui \<Longrightarrow> invariant (step e ui)"
proof (cases e)
  case (Submit p)
  assume "invariant ui"
  then show ?thesis using Submit by (auto simp: invariant_def handler_defs)
next
  case (AnalysisSettled r)
  assume "invariant ui"
  then show ?thesis using AnalysisSettled
    by (cases r) (auto simp: invariant_def handler_defs)
next
  case (GenerationSettled remote fuel)
  assume inv: "invariant ui"
  show ?thesis
  proof (cases "generating ui")
    case None
    with inv GenerationSettled show ?thesis by simp
  next
    case (Some params)
    obtain tr out where g: "generateVideo remote fuel params = (tr, out)"
      by (cases "generateVideo remote fuel params")
    from inv Some g GenerationSettled show ?thesis
      by (cases out) (auto simp: invariant_def)
  qed
next
  case ClickRetry
  assume "invariant ui"
  then show ?thesis using ClickRetry
    by (auto simp: invariant_def handler_defs split: option.splits)
next
  case ClickNewVideo
  assume "invariant ui"
  then show ?thesis using ClickNewVideo by (auto simp: invariant_def handler_defs)
next
  case ClickTryAgain
  assume "invariant ui"
  then show ?thesis using ClickTryAgain by (auto simp: invariant_def handler_defs)
next
  case ClickNewProject
  assume "invariant ui"
  then show ?thesis using ClickNewProject by (auto simp: invariant_def handler_defs)
next
  case (ClickSceneButton index)
  assume "invariant ui"
  then show ?thesis using ClickSceneButton
    by (auto simp: invariant_def split: option.splits)
next
  case (SceneSettled index remote fuel)
  assume inv: "invariant ui"
  show ?thesis
  proof (cases "map_of (producing ui) index")
    case None
    with inv SceneSettled show ?thesis by simp
  next
    case (Some params)
    then have ne: "producing ui \<noteq> []" by auto
    obtain tr out where g: "generateVideo remote fuel params = (tr, out)"
      by (cases "generateVideo remote fuel params")
    from inv Some g ne SceneSettled show ?thesis
      by (cases out) (auto simp: invariant_def)
  qed
next
  case (OrphanSettled k remote fuel)
  assume inv: "invariant ui"
  obtain tr out where g: "generateVideo remote fuel (orphaned ui ! k) = (tr, out)"
    by (cases "generateVideo remote fuel (orphaned ui ! k)")
  from inv g OrphanSettled show ?thesis
    by (cases out) (auto simp: invariant_def)
next
  case ApiKeyMissing
  assume "invariant ui"
  then show ?thesis using ApiKeyMissing by (auto simp: invariant_def)
next
  case ApiKeyContinue
  assume "invariant ui"
  then show ?thesis using ApiKeyContinue by (auto simp: invariant_def)
qed

lemma invariant_run: "invariant ui \<Longrightarrow> invariant (run es ui)"
  by (induction es arbitrary: ui) (simp_all add: invariant_step)

lemma invariant_reachable: "invariant (run es initial_UI)"
  by (rule invariant_run [OF invariant_initial])

lemma step_GenerationSettled:
  assumes "generating ui = Some params" and "generateVideo remote fuel params = (tr, out)"
  shows "step (GenerationSettled remote fuel) ui =
           (if out = Pending then ui
            else ui\<lparr>app := handleGenerate_settle out (app ui), generating := None,
                    log := log ui @ tr\<rparr>)"
  using assms by (cases out) simp_all

lemma step_SceneSettled_app [simp]: "app (step (SceneSettled index remote fuel) ui) = app ui"
proof (cases "map_of (producing ui) index")
  case None
  then show ?thesis by simp
next
  case (Some params)
  obtain tr out where "generateVideo remote fuel params = (tr, out)"
    by (cases "generateVideo remote fuel params")
  with Some show ?thesis by (cases out) simp_all
qed

lemma step_OrphanSettled_app [simp]: "app (step (OrphanSettled k remote fuel) ui) = app ui"
proof -
  obtain tr out where "generateVideo remote fuel (orphaned ui ! k) = (tr, out)"
    by (cases "generateVideo remote fuel (orphaned ui ! k)")
  then show ?thesis by (cases out) simp_all
qed

lemma step_GenerationSettled_None [simp]:
  "generating ui = None \<Longrightarrow> step (GenerationSettled remote fuel) ui = ui"
  by simp

declare step.simps(3) [simp del] step.simps(9) [simp del] step.simps(10) [simp del]

lemma step_GenerationSettled_appState:
  assumes "appState (app (step (GenerationSettled remote fuel) ui)) \<noteq> appState (app ui)"
  shows "\<exists>params tr.
           generating ui = Some params \<and>
           ((\<exists>err. generateVideo remote fuel params = (tr, Threw err) \<and>
                   appState (app (step (GenerationSettled remote fuel) ui)) = ERROR) \<or>
            (\<exists>r. generateVideo remote fuel params = (tr, Returned r) \<and>
                 appState (app (step (GenerationSettled remote fuel) ui)) = SUCCESS))"
proof (cases "generating ui")
  case None
  with assms show ?thesis by simp
next
  case (Some params)
  obtain tr out where g: "generateVideo remote fuel params = (tr, out)"
    by (cases "generateVideo remote fuel params")
  from assms Some g have "out \<noteq> Pending" by (auto simp: step_GenerationSettled)
  with Some g show ?thesis
    by (cases out) (auto simp: step_GenerationSettled)
qed

lemma step_into_LOADING:
  assumes "invariant ui"
    and "appState (app (step e ui)) = LOADING" and "appState (app ui) \<noteq> LOADING"
  shows "(\<exists>params. e = Submit params \<and> mode params \<noteq> DIRECTOR \<and> appState (app ui) = IDLE) \<or>
         (e = ClickRetry \<and> appState (app ui) = SUCCESS)"
proof (cases e)
  case (GenerationSettled remote fuel)
  with assms step_GenerationSettled_appState [of remote fuel ui] show ?thesis
    by auto
next
  case (AnalysisSettled r)
  with assms show ?thesis by (cases r) (auto simp: handler_defs split: if_splits)
qed (use assms in \<open>auto simp: handler_defs split: if_splits option.splits\<close>)

lemma step_into_SUCCESS:
  assumes "invariant ui"
    and "appState (app (step e ui)) = SUCCESS" and "appState (app ui) \<noteq> SUCCESS"
  shows "appState (app ui) = LOADING \<and>
         (\<exists>remote fuel params tr r.
            e = GenerationSettled remote fuel \<and> generating ui = Some params \<and>
            generateVideo remote fuel params = (tr, Returned r))"
proof (cases e)
  case (GenerationSettled remote fuel)
  with assms step_GenerationSettled_appState [of remote fuel ui] show ?thesis
    by (auto simp: invariant_def)
next
  case (AnalysisSettled r)
  with assms show ?thesis by (cases r) (auto simp: handler_defs split: if_splits)
qed (use assms in \<open>auto simp: handler_defs split: if_splits option.splits\<close>)

lemma step_into_ERROR:
  assumes "invariant ui"
    and "appState (app (step e ui)) = ERROR" and "appState (app ui) \<noteq> ERROR"
  shows "appState (app ui) = LOADING \<and>
         (\<exists>remote fuel params tr err.
            e = GenerationSettled remote fuel \<and> generating ui = Some params \<and>
            generateVideo remote fuel params = (tr, Threw err))"
proof (cases e)
  case (GenerationSettled remote fuel)
  with assms step_GenerationSettled_appState [of remote fuel ui] show ?thesis
    by (auto simp: invariant_def)
next
  case (AnalysisSettled r)
  with assms show ?thesis by (cases r) (auto simp: handler_defs split: if_splits)
qed (use assms in \<open>auto simp: handler_defs split: if_splits option.splits\<close>)

lemma step_into_DIRECTOR_READY:
  assumes "invariant ui"
    and "appState (app (step e ui)) = DIRECTOR_READY" and "appState (app ui) \<noteq> DIRECTOR_READY"
  shows "appState (app ui) = IDLE \<and> (\<exists>parsed. e = AnalysisSettled (Inr parsed))"
proof (cases e)
  case (GenerationSettled remote fuel)
  with assms step_GenerationSettled_appState [of remote fuel ui] show ?thesis
    by (auto simp: invariant_def)
next
  case (AnalysisSettled r)
  with assms show ?thesis
    by (cases r) (auto simp: handler_defs invariant_def split: if_splits)
qed (use assms in \<open>auto simp: handler_defs split: if_splits option.splits\<close>)

lemma step_from_IDLE:
  assumes "invariant ui"
    and "appState (app ui) = IDLE" and "appState (app (step e ui)) \<noteq> IDLE"
  shows "appState (app (step e ui)) = LOADING \<or> appState (app (step e ui)) = DIRECTOR_READY"
proof (cases e)
  case (GenerationSettled remote fuel)
  with assms show ?thesis by (auto simp: invariant_def split: option.splits)
next
  case (AnalysisSettled r)
  with assms show ?thesis by (cases r) (auto simp: handler_defs split: if_splits)
qed (use assms in \<open>auto simp: handler_defs split: if_splits option.splits\<close>)

lemma step_from_LOADING:
  assumes "invariant ui"
    and "appState (app ui) = LOADING" and "appState (app (step e ui)) \<noteq> LOADING"
  shows "appState (app (step e ui)) = SUCCESS \<or> appState (app (step e ui)) = ERROR"
proof (cases e)
  case (GenerationSettled remote fuel)
  with assms step_GenerationSettled_appState [of remote fuel ui] show ?thesis
    by auto
next
  case (AnalysisSettled r)
  with assms show ?thesis
    by (cases r) (auto simp: handler_defs invariant_def split: if_splits)
qed (use assms in \<open>auto simp: handler_defs split: if_splits option.splits\<close>)

lemma step_from_SUCCESS:
  assumes "invariant ui"
    and "appState (app ui) = SUCCESS" and "appState (app (step e ui)) \<noteq> SUCCESS"
  shows "(e = ClickNewVideo \<and> appState (app (step e ui)) = IDLE) \<or>
         (e = ClickRetry \<and> appState (app (step e ui)) = LOADING)"
proof (cases e)
  case (GenerationSettled remote fuel)
  with assms show ?thesis by (auto simp: invariant_def split: option.splits)
next
  case (AnalysisSettled r)
  with assms show ?thesis
    by (cases r) (auto simp: handler_defs invariant_def split: if_splits)
qed (use assms in \<open>auto simp: handler_defs split: if_splits option.splits\<close>)

lemma step_from_ERROR:
  assumes "invariant ui"
    and "appState (app ui) = ERROR" and "appState (app (step e ui)) \<noteq> ERROR"
  shows "e = ClickTryAgain \<and> appState (app (step e ui)) = IDLE"
proof (cases e)
  case (GenerationSettled remote fuel)
  with assms show ?thesis by (auto simp: invariant_def split: option.splits)
next
  case (AnalysisSettled r)
  with assms show ?thesis
    by (cases r) (auto simp: handler_defs invariant_def split: if_splits)
qed (use assms in \<open>auto simp: handler_defs split: if_splits option.splits\<close>)

lemma step_from_DIRECTOR_READY:
  assumes "invariant ui"
    and "appState (app ui) = DIRECTOR_READY" and "appState (app (step e ui)) \<noteq> DIRECTOR_READY"
  shows "e = ClickNewProject \<and> appState (app (step e ui)) = IDLE"
proof (cases e)
  case (GenerationSettled remote fuel)
  with assms show ?thesis by (auto simp: invariant_def split: option.splits)
next
  case (AnalysisSettled r)
  with assms show ?thesis
    by (cases r) (auto simp: handler_defs invariant_def split: if_splits)
qed (use assms in \<open>auto simp: handler_defs split: if_splits option.splits\<close>)

lemma success_has_config:
  "appState (app (run es initial_UI)) = SUCCESS \<Longrightarrow> lastConfig (app (run es initial_UI)) \<noteq> None"
  using invariant_reachable [of es] by (simp add: invariant_def)

lemma failing_generateVideo:
  "generateVideo failing_remote 3 demo_params =
     ([GenerateVideos demo_payload (Inl (Error ''quota exceeded''))],
      Threw (Error ''quota exceeded''))"
  by (simp add: generateVideo_def build_payload_def failing_remote_def demo_defs Let_def)

lemmas ui_defs =
  initial_UI_def initial_App_def handleGenerate_begin_def handleDirectorParse_def
  handleNewVideo_def

lemma demo_loading:
  "run [Submit demo_params] initial_UI =
     initial_UI\<lparr>app := handleGenerate_begin demo_params initial_App,
                 generating := Some demo_params\<rparr>"
  by (simp add: initial_UI_def initial_App_def demo_params_def)

lemma demo_success:
  "run [Submit demo_params, GenerationSettled demo_remote 3] initial_UI =
     initial_UI\<lparr>app := handleGenerate_settle (Returned demo_result)
                          (handleGenerate_begin demo_params initial_App),
                 log := demo_trace\<rparr>"
proof -
  have "run [Submit demo_params, GenerationSettled demo_remote 3] initial_UI =
        step (GenerationSettled demo_remote 3) (run [Submit demo_params] initial_UI)"
    by simp
  also have "\<dots> = initial_UI\<lparr>app := handleGenerate_settle (Returned demo_result)
                          (handleGenerate_begin demo_params initial_App),
                 log := demo_trace\<rparr>"
    unfolding demo_loading
    by (simp add: step_GenerationSettled [OF _ demo_generateVideo] initial_UI_def)
  finally show ?thesis .
qed

lemma demo_failure:
  "run [Submit demo_params, GenerationSettled failing_remote 3] initial_UI =
     initial_UI\<lparr>app := handleGenerate_settle (Threw (Error ''quota exceeded''))
                          (handleGenerate_begin demo_params initial_App),
                 log := [GenerateVideos demo_payload (Inl (Error ''quota exceeded''))]\<rparr>"
proof -
  have "run [Submit demo_params, GenerationSettled failing_remote 3] initial_UI =
        step (GenerationSettled failing_remote 3) (run [Submit demo_params] initial_UI)"
    by simp
  also have "\<dots> = initial_UI\<lparr>app := handleGenerate_settle (Threw (Error ''quota exceeded''))
                          (handleGenerate_begin demo_params initial_App),
                 log := [GenerateVideos demo_payload (Inl (Error ''quota exceeded''))]\<rparr>"
    unfolding demo_loading
    by (simp add: step_GenerationSettled [OF _ failing_generateVideo] initial_UI_def)
  finally show ?thesis .
qed

lemma demo_director_ready:
  "run [Submit demo_director_params, AnalysisSettled (Inr [demo_scene])] initial_UI =
     initial_UI\<lparr>app := handleDirectorParse [demo_scene] initial_App,
                 director := Some \<lparr>scenes = [demo_scene], globalError = None\<rparr>\<rparr>"
  by (simp add: initial_UI_def initial_App_def demo_director_params_def demo_params_def)

lemma length_map_index [simp]: "length (map_index f xs) = length xs"
  by (simp add: map_index_def)

lemma nth_map_index [simp]: "i < length xs \<Longrightarrow> map_index f xs ! i = f (xs ! i) i"
  by (simp add: map_index_def)

lemma begin_length [simp]:
  "length (scenes (handleGenerateScene_begin index d)) = length (scenes d)"
  by (simp add: handleGenerateScene_begin_def)

lemma begin_nth:
  "j < length (scenes d) \<Longrightarrow>
     scenes (handleGenerateScene_begin index d) ! j =
       (if j = index then (scenes d ! j)\<lparr>StoryboardScene.status := Scene_generating\<rparr>
        else scenes d ! j)"
  by (simp add: handleGenerateScene_begin_def)

lemma settle_length [simp]:
  "length (scenes (handleGenerateScene_settle index out d)) = length (scenes d)"
  by (cases out) simp_all

lemma settle_nth:
  "j < length (scenes d) \<Longrightarrow>
     scenes (handleGenerateScene_settle index out d) ! j =
       (if j = index then
          (case out of
             Pending \<Rightarrow> scenes d ! j
           | Threw err \<Rightarrow> (scenes d ! j)\<lparr>StoryboardScene.status := Scene_error\<rparr>
           | Returned result \<Rightarrow>
               (scenes d ! j)\<lparr>StoryboardScene.status := Scene_done,
                              StoryboardScene.videoUrl := Some (objectUrl result),
                              videoObject := Some (GenerateVideoResult.video result)\<rparr>)
        else scenes d ! j)"
  by (cases out) simp_all

lemma generateVideo_requests:
  assumes "generateVideo remote fuel params = (tr, out)"
  shows "(\<forall>u. RevokeObjectURL u \<notin> set tr) \<and>
         length (filter is_GenerateVideos tr) \<le> 1 \<and>
         (\<forall>key pl. API_KEY remote = Some key \<and> build_payload params = Inr pl \<longrightarrow>
            filter is_GenerateVideos tr = [GenerateVideos pl (generateVideos remote pl)]) \<and>
         (API_KEY remote = None \<longrightarrow> tr = [])"
proof -
  consider "tr = []" "API_KEY remote = None \<or> (\<exists>e. build_payload params = Inl e)"
    | key pl where "API_KEY remote = Some key" and "build_payload params = Inr pl"
  proof (cases "API_KEY remote")
    case None
    with assms have "tr = []" by (simp add: generateVideo_no_client)
    with None show ?thesis by (intro that(1)) simp_all
  next
    case (Some key)
    show ?thesis
    proof (cases "build_payload params")
      case (Inl e)
      with assms Some have "tr = []" by (simp add: generateVideo_no_payload)
      with Inl show ?thesis by (intro that(1)) simp_all
    next
      case (Inr pl)
      with Some show ?thesis by (rule that(2))
    qed
  qed
  then show ?thesis
  proof cases
    case 1
    then show ?thesis by auto
  next
    case (2 key pl)
    from generateVideo_shape [OF assms 2] obtain ps tail where
      tr: "tr = GenerateVideos pl (generateVideos remote pl) # pairs ps @ tail" and
      tail: "tail = [] \<or> (\<exists>u. tail = [Fetch u]) \<or>
             (\<exists>u b r. tail = [Fetch u, CreateObjectURL b (objectUrl r)] \<and> out = Returned r)"
      by blast
    have ps: "filter is_GenerateVideos (pairs ps) = []"
      "\<forall>u. RevokeObjectURL u \<notin> set (pairs ps)"
      using pairs_events [of _ ps] pairs_events [of "RevokeObjectURL _" ps]
      by (auto simp: filter_empty_conv)
    have t: "filter is_GenerateVideos tail = []" "\<forall>u. RevokeObjectURL u \<notin> set tail"
      using tail by auto
    show ?thesis using 2 ps t by (simp add: tr)
  qed
qed

section \<open>Claims about the page\<close>

text \<open>
  C5, as the code has it: the view state follows idle, loading, success or error, plus
  the director sub-flow. In every state the page can reach and for every event:
  \<^verbatim>\<open>IDLE\<close> is left only for \<^verbatim>\<open>LOADING\<close> or \<^verbatim>\<open>DIRECTOR_READY\<close>; \<^verbatim>\<open>LOADING\<close> is entered only
  by a generate submission (the form's submit in a video mode, from \<^verbatim>\<open>IDLE\<close>, or the
  retry callback, from \<^verbatim>\<open>SUCCESS\<close>) and left only for \<^verbatim>\<open>SUCCESS\<close> or \<^verbatim>\<open>ERROR\<close>; \<^verbatim>\<open>SUCCESS\<close>
  and \<^verbatim>\<open>ERROR\<close> are entered only from \<^verbatim>\<open>LOADING\<close>, when the pending \<^verbatim>\<open>generateVideo\<close> call
  returns or throws; \<^verbatim>\<open>DIRECTOR_READY\<close> is entered only from \<^verbatim>\<open>IDLE\<close> by a successful script
  parse; \<^verbatim>\<open>ERROR\<close> and \<^verbatim>\<open>DIRECTOR_READY\<close> are left only for \<^verbatim>\<open>IDLE\<close>, by the try-again and
  new-project buttons; \<^verbatim>\<open>SUCCESS\<close> is left for \<^verbatim>\<open>IDLE\<close> by the new-video action or for
  \<^verbatim>\<open>LOADING\<close> by the retry callback.
\<close>

theorem view_state_machine:
  assumes "ui = run es initial_UI"
  shows
    "(appState (app ui) = IDLE \<and> appState (app (step e ui)) \<noteq> IDLE \<longrightarrow>
        appState (app (step e ui)) = LOADING \<or> appState (app (step e ui)) = DIRECTOR_READY) \<and>
     (appState (app ui) \<noteq> LOADING \<and> appState (app (step e ui)) = LOADING \<longrightarrow>
        (\<exists>params. e = Submit params \<and> mode params \<noteq> DIRECTOR \<and> appState (app ui) = IDLE) \<or>
        (e = ClickRetry \<and> appState (app ui) = SUCCESS)) \<and>
     (appState (app ui) = LOADING \<and> appState (app (step e ui)) \<noteq> LOADING \<longrightarrow>
        appState (app (step e ui)) = SUCCESS \<or> appState (app (step e ui)) = ERROR) \<and>
     (appState (app ui) \<noteq> SUCCESS \<and> appState (app (step e ui)) = SUCCESS \<longrightarrow>
        appState (app ui) = LOADING \<and>
        (\<exists>remote fuel params tr r.
           e = GenerationSettled remote fuel \<and> generating ui = Some params \<and>
           generateVideo remote fuel params = (tr, Returned r))) \<and>
     (appState (app ui) \<noteq> ERROR \<and> appState (app (step e ui)) = ERROR \<longrightarrow>
        appState (app ui) = LOADING \<and>
        (\<exists>remote fuel params tr err.
           e = GenerationSettled remote fuel \<and> generating ui = Some params \<and>
           generateVideo remote fuel params = (tr, Threw err))) \<and>
     (appState (app ui) \<noteq> DIRECTOR_READY \<and> appState (app (step e ui)) = DIRECTOR_READY \<longrightarrow>
        appState (app ui) = IDLE \<and> (\<exists>parsed. e = AnalysisSettled (Inr parsed))) \<and>
     (appState (app ui) = ERROR \<and> appState (app (step e ui)) \<noteq> ERROR \<longrightarrow>
        e = ClickTryAgain \<and> appState (app (step e ui)) = IDLE) \<and>
     (appState (app ui) = DIRECTOR_READY \<and> appState (app (step e ui)) \<noteq> DIRECTOR_READY \<longrightarrow>
        e = ClickNewProject \<and> appState (app (step e ui)) = IDLE) \<and>
     (appState (app ui) = SUCCESS \<and> appState (app (step e ui)) \<noteq> SUCCESS \<longrightarrow>
        (e = ClickNewVideo \<and> appState (app (step e ui)) = IDLE) \<or>
        (e = ClickRetry \<and> appState (app (step e ui)) = LOADING))"
proof -
  have inv: "invariant ui" unfolding assms by (rule invariant_reachable)
  show ?thesis
    using step_from_IDLE [OF inv, of e] step_into_LOADING [OF inv, of e]
      step_from_LOADING [OF inv, of e] step_into_SUCCESS [OF inv, of e]
      step_into_ERROR [OF inv, of e] step_into_DIRECTOR_READY [OF inv, of e]
      step_from_ERROR [OF inv, of e] step_from_DIRECTOR_READY [OF inv, of e]
      step_from_SUCCESS [OF inv, of e]
    by (intro conjI impI) blast+
qed

text \<open>
  C5 as stated has \<^verbatim>\<open>SUCCESS\<close> left for \<^verbatim>\<open>IDLE\<close> only. After one successful generation
  the retry callback, \<^verbatim>\<open>onRetry={() => handleGenerate(lastConfig!)}\<close>, takes the page from
  \<^verbatim>\<open>SUCCESS\<close> to \<^verbatim>\<open>LOADING\<close>.
\<close>

theorem retry_leaves_SUCCESS_for_LOADING:
  "appState (app (run [Submit demo_params, GenerationSettled demo_remote 3] initial_UI)) = SUCCESS \<and>
   appState (app (step ClickRetry
     (run [Submit demo_params, GenerationSettled demo_remote 3] initial_UI))) = LOADING"
  unfolding demo_success
  by (simp add: ui_defs demo_result_def)

text \<open>
  Four transitions of one session: loading to success, error to idle, idle to the
  director view, and the director view back to idle.
\<close>

theorem view_state_machine_witness:
  "appState (app (run [Submit demo_params] initial_UI)) = LOADING \<and>
   appState (app (step (GenerationSettled demo_remote 3)
     (run [Submit demo_params] initial_UI))) = SUCCESS \<and>
   (\<exists>remote fuel params tr r.
      GenerationSettled demo_remote 3 = GenerationSettled remote fuel \<and>
      generating (run [Submit demo_params] initial_UI) = Some params \<and>
      generateVideo remote fuel params = (tr, Returned r)) \<and>
   appState (app (run [Submit demo_params, GenerationSettled failing_remote 3] initial_UI)) = ERROR \<and>
   appState (app (step ClickTryAgain
     (run [Submit demo_params, GenerationSettled failing_remote 3] initial_UI))) = IDLE \<and>
   appState (app (run [Submit demo_director_params] initial_UI)) = IDLE \<and>
   appState (app (step (AnalysisSettled (Inr [demo_scene]))
     (run [Submit demo_director_params] initial_UI))) = DIRECTOR_READY \<and>
   appState (app (step ClickNewProject
     (run [Submit demo_director_params, AnalysisSettled (Inr [demo_scene])] initial_UI))) = IDLE"
proof -
  let ?loading = "run [Submit demo_params] initial_UI"
  let ?failed = "run [Submit demo_params, GenerationSettled failing_remote 3] initial_UI"
  let ?analysing = "run [Submit demo_director_params] initial_UI"
  let ?ready = "run [Submit demo_director_params, AnalysisSettled (Inr [demo_scene])] initial_UI"
  have a1: "appState (app ?loading) = LOADING"
    unfolding demo_loading by (simp add: ui_defs)
  have a2: "appState (app (step (GenerationSettled demo_remote 3) ?loading)) = SUCCESS"
    using demo_success by (simp add: ui_defs)
  from view_state_machine [OF refl, of "[Submit demo_params]" "GenerationSettled demo_remote 3"]
    a1 a2
  have a3: "\<exists>remote fuel params tr r.
      GenerationSettled demo_remote 3 = GenerationSettled remote fuel \<and>
      generating ?loading = Some params \<and>
      generateVideo remote fuel params = (tr, Returned r)"
    by (simp del: run.simps)
  have b1: "appState (app ?failed) = ERROR"
    unfolding demo_failure by (simp add: ui_defs)
  have b2: "appState (app (step ClickTryAgain ?failed)) \<noteq> ERROR"
    unfolding demo_failure by (simp add: ui_defs)
  from view_state_machine [OF refl,
      of "[Submit demo_params, GenerationSettled failing_remote 3]" ClickTryAgain] b1 b2
  have b3: "appState (app (step ClickTryAgain ?failed)) = IDLE"
    by (simp del: run.simps)
  have c1: "appState (app ?analysing) = IDLE"
    by (simp add: ui_defs demo_director_params_def demo_params_def)
  have c2: "appState (app (step (AnalysisSettled (Inr [demo_scene])) ?analysing)) = DIRECTOR_READY"
    using demo_director_ready by (simp add: ui_defs)
  have d1: "appState (app ?ready) = DIRECTOR_READY"
    unfolding demo_director_ready by (simp add: ui_defs)
  have d2: "appState (app (step ClickNewProject ?ready)) \<noteq> DIRECTOR_READY"
    unfolding demo_director_ready by (simp add: ui_defs)
  from view_state_machine [OF refl,
      of "[Submit demo_director_params, AnalysisSettled (Inr [demo_scene])]" ClickNewProject]
    d1 d2
  have d3: "appState (app (step ClickNewProject ?ready)) = IDLE"
    by (simp del: run.simps)
  show ?thesis by (intro conjI a1 a2 a3 b1 b3 c1 c2 d3)
qed

section \<open>Properties of the director view, of parseScript and of the log\<close>

lemma demo_scene_params: "scene_params VEO_FAST LANDSCAPE P720 demo_scene = demo_params"
  by (simp add: scene_params_def demo_scene_def demo_params_def)

lemma demo_handleGenerateScene:
  "handleGenerateScene demo_remote 3 VEO_FAST LANDSCAPE P720 0 demo_director =
     (demo_director_done, demo_trace)"
  by (simp add: handleGenerateScene_def demo_director_def demo_scene_params demo_generateVideo
        handleGenerateScene_begin_def map_index_def demo_director_done_def demo_result_def
        upt_rec)

lemma map_scenes_initialised:
  "map_scenes k rawData = Inr parsed \<Longrightarrow>
     length parsed = length rawData \<and>
     (\<forall>i<length parsed.
        StoryboardScene.status (parsed ! i) = Scene_idle \<and>
        StoryboardScene.videoUrl (parsed ! i) = None \<and>
        videoObject (parsed ! i) = None \<and>
        scene_id (parsed ! i) = ''scene-'' @ string_of_nat (k + i))"
proof (induction rawData arbitrary: k parsed)
  case Nil
  then show ?case by simp
next
  case (Cons scene rest)
  from Cons.prems obtain t p rest' where
    rest: "map_scenes (Suc k) rest = Inr rest'" and
    parsed: "parsed =
       \<lparr>scene_id = ''scene-'' @ string_of_nat k, title = t, prompt = p,
        videoUrl = None, videoObject = None, status = Scene_idle\<rparr> # rest'"
    by (auto split: sum.splits)
  from Cons.IH [OF rest] show ?case
    unfolding parsed by (auto simp: nth_Cons')
qed

lemma demo_parseScript:
  "parseScript (Some ''k'') demo_generateContent demo_JSON_parse ''A fox wakes, then sleeps.'' = Inr demo_parsed"
  by (simp add: parseScript_def parse_scenes_def demo_generateContent_def demo_JSON_parse_def
        demo_parsed_def string_of_nat.simps)


lemma step_calls_in_flight:
  "calls_in_flight (step e ui) \<le> Suc (calls_in_flight ui) \<and>
   (calls_in_flight ui < calls_in_flight (step e ui) \<longrightarrow> is_click e)"
proof (cases e)
  case (AnalysisSettled r)
  then show ?thesis by (cases r) (simp_all add: calls_in_flight_def)
next
  case (GenerationSettled remote fuel)
  show ?thesis
  proof (cases "generating ui")
    case None
    with GenerationSettled show ?thesis by simp
  next
    case (Some params)
    obtain tr out where "generateVideo remote fuel params = (tr, out)"
      by (cases "generateVideo remote fuel params")
    with Some GenerationSettled show ?thesis
      by (simp add: step_GenerationSettled calls_in_flight_def)
  qed
next
  case (SceneSettled index remote fuel)
  show ?thesis
  proof (cases "map_of (producing ui) index")
    case None
    with SceneSettled show ?thesis by (simp add: step.simps)
  next
    case (Some params)
    obtain tr out where "generateVideo remote fuel params = (tr, out)"
      by (cases "generateVideo remote fuel params")
    moreover have
      "length (filter (\<lambda>(i, _). i \<noteq> index) (producing ui)) \<le> Suc (length (producing ui))"
      "\<not> length (producing ui) < length (filter (\<lambda>(i, _). i \<noteq> index) (producing ui))"
      by (simp_all add: le_SucI not_less)
    ultimately show ?thesis using Some SceneSettled
      by (cases out) (simp_all add: step.simps calls_in_flight_def)
  qed
next
  case (OrphanSettled k remote fuel)
  obtain tr out where "generateVideo remote fuel (orphaned ui ! k) = (tr, out)"
    by (cases "generateVideo remote fuel (orphaned ui ! k)")
  with OrphanSettled show ?thesis
    by (cases out) (auto simp: step.simps calls_in_flight_def)
qed (auto simp: calls_in_flight_def split: option.splits)

lemma map_of_filter_out:
  "map_of (filter (\<lambda>(i, _). i \<noteq> index) xs) index = None"
  by (induction xs) auto

lemma step_SceneSettled:
  assumes "map_of (producing ui) index = Some params"
    and "generateVideo remote fuel params = (tr, out)"
  shows "step (SceneSettled index remote fuel) ui =
           (if out = Pending then ui
            else ui\<lparr>director := map_option (handleGenerateScene_settle index out) (director ui),
                    producing := filter (\<lambda>(i, _). i \<noteq> index) (producing ui),
                    log := log ui @ tr,
                    console := console ui @ thrown_by out\<rparr>)"
  using assms by (cases out) (simp_all add: step.simps)

lemma step_log:
  "log (step e ui) = log ui \<or>
   (\<exists>remote fuel params tr out.
      generateVideo remote fuel params = (tr, out) \<and> log (step e ui) = log ui @ tr)"
proof (cases e)
  case (AnalysisSettled r)
  then show ?thesis by (cases r) simp_all
next
  case (GenerationSettled remote fuel)
  show ?thesis
  proof (cases "generating ui")
    case None
    with GenerationSettled show ?thesis by simp
  next
    case (Some params)
    obtain tr out where g: "generateVideo remote fuel params = (tr, out)"
      by (cases "generateVideo remote fuel params")
    show ?thesis
    proof (cases "out = Pending")
      case True
      with Some g GenerationSettled show ?thesis by (simp add: step_GenerationSettled)
    next
      case False
      with Some g GenerationSettled have "log (step e ui) = log ui @ tr"
        by (simp add: step_GenerationSettled)
      with g show ?thesis by blast
    qed
  qed
next
  case (SceneSettled index remote fuel)
  show ?thesis
  proof (cases "map_of (producing ui) index")
    case None
    with SceneSettled show ?thesis by (simp add: step.simps)
  next
    case (Some params)
    obtain tr out where g: "generateVideo remote fuel params = (tr, out)"
      by (cases "generateVideo remote fuel params")
    show ?thesis
    proof (cases "out = Pending")
      case True
      with Some g SceneSettled show ?thesis by (simp add: step_SceneSettled)
    next
      case False
      with Some g SceneSettled have "log (step e ui) = log ui @ tr"
        by (simp add: step_SceneSettled)
      with g show ?thesis by blast
    qed
  qed
next
  case (OrphanSettled k remote fuel)
  obtain tr out where g: "generateVideo remote fuel (orphaned ui ! k) = (tr, out)"
    by (cases "generateVideo remote fuel (orphaned ui ! k)")
  show ?thesis
  proof (cases "out = Pending \<or> \<not> k < length (orphaned ui)")
    case True
    with g OrphanSettled show ?thesis by (auto simp: step.simps)
  next
    case False
    with g OrphanSettled have "log (step e ui) = log ui @ tr"
      by (cases out) (simp_all add: step.simps)
    with g show ?thesis by blast
  qed
qed (auto split: option.splits)

lemma step_one_request:
  "length (filter is_GenerateVideos (log (step e ui)))
     \<le> Suc (length (filter is_GenerateVideos (log ui)))"
  using step_log [of e ui] generateVideo_requests by fastforce

lemma step_no_revoke:
  "RevokeObjectURL u \<in> set (log (step e ui)) \<Longrightarrow> RevokeObjectURL u \<in> set (log ui)"
  using step_log [of e ui] generateVideo_requests by fastforce

lemma live_without_revoke:
  "\<forall>u. RevokeObjectURL u \<notin> set tr \<Longrightarrow> live_object_urls tr = created_object_urls tr"
proof (induction tr)
  case Nil
  then show ?case by simp
next
  case (Cons e tr)
  then show ?case by (cases e) simp_all
qed

lemma run_no_revoke:
  "\<forall>u. RevokeObjectURL u \<notin> set (log ui) \<Longrightarrow> \<forall>u. RevokeObjectURL u \<notin> set (log (run es ui))"
proof (induction es arbitrary: ui)
  case Nil
  then show ?case by simp
next
  case (Cons e es)
  from Cons.prems have "\<forall>u. RevokeObjectURL u \<notin> set (log (step e ui))"
    using step_no_revoke [of _ e ui] by blast
  from Cons.IH [OF this] show ?case by simp
qed

lemma demo_new_video:
  "run [Submit demo_params, GenerationSettled demo_remote 3, ClickNewVideo] initial_UI =
     initial_UI\<lparr>app := handleNewVideo (handleGenerate_settle (Returned demo_result)
                          (handleGenerate_begin demo_params initial_App)),
                 log := demo_trace\<rparr>"
proof -
  have "run [Submit demo_params, GenerationSettled demo_remote 3, ClickNewVideo] initial_UI =
        step ClickNewVideo
          (run [Submit demo_params, GenerationSettled demo_remote 3] initial_UI)"
    by (simp add: step.simps)
  also have "\<dots> = initial_UI\<lparr>app := handleNewVideo (handleGenerate_settle (Returned demo_result)
                          (handleGenerate_begin demo_params initial_App)),
                 log := demo_trace\<rparr>"
    unfolding demo_success
    by (simp add: initial_UI_def handleGenerate_begin_def demo_result_def)
  finally show ?thesis .
qed

lemma demo_scene_produced:
  "run [Submit demo_director_params, AnalysisSettled (Inr [demo_scene]), ClickSceneButton 0,
        SceneSettled 0 demo_remote 3] initial_UI =
     initial_UI\<lparr>app := handleDirectorParse [demo_scene] initial_App,
                 director :=
                   Some \<lparr>scenes =
                           [demo_scene\<lparr>StoryboardScene.status := Scene_done,
                                       StoryboardScene.videoUrl := Some ''blob:1'',
                                       videoObject := Some demo_video\<rparr>],
                         globalError = None\<rparr>,
                 log := demo_trace\<rparr>"
proof -
  let ?clicked = "step (ClickSceneButton 0)
     (run [Submit demo_director_params, AnalysisSettled (Inr [demo_scene])] initial_UI)"
  have clicked: "?clicked =
     initial_UI\<lparr>app := handleDirectorParse [demo_scene] initial_App,
                 director :=
                   Some \<lparr>scenes = [demo_scene\<lparr>StoryboardScene.status := Scene_generating\<rparr>],
                         globalError = None\<rparr>,
                 producing := [(0, demo_params)]\<rparr>"
    unfolding demo_director_ready
    by (simp add: initial_UI_def initial_App_def handleDirectorParse_def director_params_def
          demo_scene_params handleGenerateScene_begin_def map_index_def upt_rec)
       (simp add: demo_scene_def)
  have "run [Submit demo_director_params, AnalysisSettled (Inr [demo_scene]), ClickSceneButton 0,
        SceneSettled 0 demo_remote 3] initial_UI = step (SceneSettled 0 demo_remote 3) ?clicked"
    by (simp add: step.simps)
  also have "\<dots> = initial_UI\<lparr>app := handleDirectorParse [demo_scene] initial_App,
                 director :=
                   Some \<lparr>scenes =
                           [demo_scene\<lparr>StoryboardScene.status := Scene_done,
                                       StoryboardScene.videoUrl := Some ''blob:1'',
                                       videoObject := Some demo_video\<rparr>],
                         globalError = None\<rparr>,
                 log := demo_trace\<rparr>"
    unfolding clicked
    by (simp add: step_SceneSettled [OF _ demo_generateVideo] initial_UI_def map_index_def
          upt_rec demo_result_def)
  finally show ?thesis .
qed

section \<open>Claims about the director view, parseScript and errors\<close>

text \<open>
  C6: one scene action issues exactly one generation call, with that scene's prompt, and
  changes that scene only. For a scene index of the list, the trace of
  \<^verbatim>\<open>handleGenerateScene\<close> is the trace of one \<^verbatim>\<open>generateVideo\<close> call in text mode on the
  scene's prompt; it never holds more than one job submission, and once the client is
  constructed it holds exactly one, whose payload carries that prompt (no prompt when it
  is empty), while without an API key it is empty; afterwards the scene at the index is the old one with
  status \<^verbatim>\<open>done\<close>, the object URL and the video object on success, status \<^verbatim>\<open>error\<close> on
  failure, status \<^verbatim>\<open>generating\<close> while the call is pending; the list keeps its length
  and every other scene is unchanged. The two state updates leave the other scenes alone
  on any scene list, so calls for different scenes do not disturb each other.
\<close>

theorem handleGenerateScene_one_call_one_scene:
  assumes "index < length (scenes d)"
    and "handleGenerateScene remote fuel model' aspectRatio' resolution' index d = (d', tr)"
  shows
    "(\<exists>out.
        generateVideo remote fuel
          \<lparr>GenerateVideoParams.prompt = StoryboardScene.prompt (scenes d ! index),
           model = model', aspectRatio = aspectRatio', resolution = resolution',
           mode = TEXT_TO_VIDEO, startFrame = None, endFrame = None,
           referenceImages = None, inputVideoObject = None, isLooping = False\<rparr> = (tr, out) \<and>
        length (filter is_GenerateVideos tr) \<le> 1 \<and>
        (\<forall>key. API_KEY remote = Some key \<longrightarrow>
           (\<exists>pl. filter is_GenerateVideos tr = [GenerateVideos pl (generateVideos remote pl)] \<and>
              GenerateVideosPayload.prompt pl =
                (if StoryboardScene.prompt (scenes d ! index) \<noteq> []
                 then Some (StoryboardScene.prompt (scenes d ! index)) else None))) \<and>
        (API_KEY remote = None \<longrightarrow> tr = []) \<and>
        scenes d' ! index =
          (case out of
             Pending \<Rightarrow> (scenes d ! index)\<lparr>StoryboardScene.status := Scene_generating\<rparr>
           | Threw err \<Rightarrow> (scenes d ! index)\<lparr>StoryboardScene.status := Scene_error\<rparr>
           | Returned result \<Rightarrow>
               (scenes d ! index)
                 \<lparr>StoryboardScene.status := Scene_done,
                  StoryboardScene.videoUrl := Some (objectUrl result),
                  videoObject := Some (GenerateVideoResult.video result)\<rparr>)) \<and>
     length (scenes d') = length (scenes d) \<and>
     (\<forall>j. j < length (scenes d) \<and> j \<noteq> index \<longrightarrow> scenes d' ! j = scenes d ! j) \<and>
     (\<forall>out d0 j. j < length (scenes d0) \<and> j \<noteq> index \<longrightarrow>
        scenes (handleGenerateScene_begin index d0) ! j = scenes d0 ! j \<and>
        scenes (handleGenerateScene_settle index out d0) ! j = scenes d0 ! j)"
proof -
  let ?params = "scene_params model' aspectRatio' resolution' (scenes d ! index)"
  obtain out where run: "generateVideo remote fuel ?params = (tr, out)"
    and d': "d' = handleGenerateScene_settle index out (handleGenerateScene_begin index d)"
    using assms by (auto simp: handleGenerateScene_def split: prod.splits)
  obtain pl where pl: "build_payload ?params = Inr pl"
    and prompt: "GenerateVideosPayload.prompt pl =
          (if StoryboardScene.prompt (scenes d ! index) \<noteq> []
           then Some (StoryboardScene.prompt (scenes d ! index)) else None)"
    by (simp add: build_payload_def scene_params_def Let_def)
  note req = generateVideo_requests [OF run]
  from req have le: "length (filter is_GenerateVideos tr) \<le> 1"
    and nokey: "API_KEY remote = None \<longrightarrow> tr = []"
    by simp_all
  from req pl prompt
  have one: "\<forall>key. API_KEY remote = Some key \<longrightarrow>
           (\<exists>pl. filter is_GenerateVideos tr = [GenerateVideos pl (generateVideos remote pl)] \<and>
              GenerateVideosPayload.prompt pl =
                (if StoryboardScene.prompt (scenes d ! index) \<noteq> []
                 then Some (StoryboardScene.prompt (scenes d ! index)) else None))"
    by blast
  have at: "scenes d' ! index =
          (case out of
             Pending \<Rightarrow> (scenes d ! index)\<lparr>StoryboardScene.status := Scene_generating\<rparr>
           | Threw err \<Rightarrow> (scenes d ! index)\<lparr>StoryboardScene.status := Scene_error\<rparr>
           | Returned result \<Rightarrow>
               (scenes d ! index)
                 \<lparr>StoryboardScene.status := Scene_done,
                  StoryboardScene.videoUrl := Some (objectUrl result),
                  videoObject := Some (GenerateVideoResult.video result)\<rparr>)"
    using assms(1) unfolding d' by (cases out) (simp_all add: settle_nth begin_nth)
  have k1: "\<exists>out.
        generateVideo remote fuel
          \<lparr>GenerateVideoParams.prompt = StoryboardScene.prompt (scenes d ! index),
           model = model', aspectRatio = aspectRatio', resolution = resolution',
           mode = TEXT_TO_VIDEO, startFrame = None, endFrame = None,
           referenceImages = None, inputVideoObject = None, isLooping = False\<rparr> = (tr, out) \<and>
        length (filter is_GenerateVideos tr) \<le> 1 \<and>
        (\<forall>key. API_KEY remote = Some key \<longrightarrow>
           (\<exists>pl. filter is_GenerateVideos tr = [GenerateVideos pl (generateVideos remote pl)] \<and>
              GenerateVideosPayload.prompt pl =
                (if StoryboardScene.prompt (scenes d ! index) \<noteq> []
                 then Some (StoryboardScene.prompt (scenes d ! index)) else None))) \<and>
        (API_KEY remote = None \<longrightarrow> tr = []) \<and>
        scenes d' ! index =
          (case out of
             Pending \<Rightarrow> (scenes d ! index)\<lparr>StoryboardScene.status := Scene_generating\<rparr>
           | Threw err \<Rightarrow> (scenes d ! index)\<lparr>StoryboardScene.status := Scene_error\<rparr>
           | Returned result \<Rightarrow>
               (scenes d ! index)
                 \<lparr>StoryboardScene.status := Scene_done,
                  StoryboardScene.videoUrl := Some (objectUrl result),
                  videoObject := Some (GenerateVideoResult.video result)\<rparr>)"
    using run unfolding scene_params_def by (intro exI [of _ out] conjI le one nokey at)
  have k2: "length (scenes d') = length (scenes d)" unfolding d' by simp
  have k3: "\<forall>j. j < length (scenes d) \<and> j \<noteq> index \<longrightarrow> scenes d' ! j = scenes d ! j"
    unfolding d' by (simp add: settle_nth begin_nth)
  have k4: "\<forall>out d0 j. j < length (scenes d0) \<and> j \<noteq> index \<longrightarrow>
        scenes (handleGenerateScene_begin index d0) ! j = scenes d0 ! j \<and>
        scenes (handleGenerateScene_settle index out d0) ! j = scenes d0 ! j"
    by (simp add: settle_nth begin_nth)
  show ?thesis by (intro conjI k1 k2 k3 k4)
qed

text \<open>Producing the first of two scenes.\<close>

theorem handleGenerateScene_one_call_one_scene_witness:
  "0 < length (scenes demo_director) \<and>
   handleGenerateScene demo_remote 3 VEO_FAST LANDSCAPE P720 0 demo_director =
     (demo_director_done, demo_trace) \<and>
   API_KEY demo_remote = Some ''k'' \<and>
   (\<exists>pl. filter is_GenerateVideos demo_trace =
           [GenerateVideos pl (generateVideos demo_remote pl)] \<and>
         GenerateVideosPayload.prompt pl = Some ''a fox at dawn'') \<and>
   length (scenes demo_director_done) = length (scenes demo_director) \<and>
   scenes demo_director_done ! 1 = scenes demo_director ! 1"
proof -
  have h: "0 < length (scenes demo_director)" by (simp add: demo_director_def)
  have key: "API_KEY demo_remote = Some ''k''" by (simp add: demo_remote_def)
  note T = handleGenerateScene_one_call_one_scene [OF h demo_handleGenerateScene]
  from T have
    "\<forall>key. API_KEY demo_remote = Some key \<longrightarrow>
       (\<exists>pl. filter is_GenerateVideos demo_trace =
               [GenerateVideos pl (generateVideos demo_remote pl)] \<and>
          GenerateVideosPayload.prompt pl =
            (if StoryboardScene.prompt (scenes demo_director ! 0) \<noteq> []
             then Some (StoryboardScene.prompt (scenes demo_director ! 0)) else None))"
    by (elim conjE exE)
  from this [rule_format, OF key]
  have one: "\<exists>pl. filter is_GenerateVideos demo_trace =
           [GenerateVideos pl (generateVideos demo_remote pl)] \<and>
         GenerateVideosPayload.prompt pl = Some ''a fox at dawn''"
    by (simp add: demo_director_def demo_scene_def)
  from T have len: "length (scenes demo_director_done) = length (scenes demo_director)"
    by (elim conjE)
  from T have
    "\<forall>j. j < length (scenes demo_director) \<and> j \<noteq> 0 \<longrightarrow>
       scenes demo_director_done ! j = scenes demo_director ! j"
    by (elim conjE)
  then have other: "scenes demo_director_done ! 1 = scenes demo_director ! 1"
    by (simp add: demo_director_def)
  show ?thesis by (intro conjI h demo_handleGenerateScene key one len other)
qed

text \<open>
  C8: every scene that \<^verbatim>\<open>parseScript\<close> returns has status \<^verbatim>\<open>idle\<close>, no video URL, no
  video object, and the id \<^verbatim>\<open>scene-\<close> followed by its zero-based index in decimal: the
  id starts with \<^verbatim>\<open>scene-\<close>, and the digits after it read back as the index.
\<close>

theorem parseScript_scenes_initialised:
  assumes "parseScript apiKey generateContent JSON_parse script = Inr parsed"
  shows "\<forall>i<length parsed.
           StoryboardScene.status (parsed ! i) = Scene_idle \<and>
           StoryboardScene.videoUrl (parsed ! i) = None \<and>
           videoObject (parsed ! i) = None \<and>
           scene_id (parsed ! i) = ''scene-'' @ string_of_nat i \<and>
           take 6 (scene_id (parsed ! i)) = ''scene-'' \<and>
           nat_of_string (drop 6 (scene_id (parsed ! i))) = i"
proof -
  from assms obtain rawData where "map_scenes 0 rawData = Inr parsed"
    by (auto simp: parseScript_def parse_scenes_def
             split: option.splits sum.splits json.splits)
  from map_scenes_initialised [OF this] show ?thesis
    by (simp add: nat_of_string_of_nat del: nat_of_string.simps)
qed

text \<open>A response of two scenes; the second one.\<close>

theorem parseScript_scenes_initialised_witness:
  "parseScript (Some ''k'') demo_generateContent demo_JSON_parse ''A fox wakes, then sleeps.'' = Inr demo_parsed \<and>
   (1::nat) < length demo_parsed \<and>
   StoryboardScene.status (demo_parsed ! 1) = Scene_idle \<and>
   StoryboardScene.videoUrl (demo_parsed ! 1) = None \<and>
   videoObject (demo_parsed ! 1) = None \<and>
   scene_id (demo_parsed ! 1) = ''scene-1''"
proof -
  have h: "(1::nat) < length demo_parsed" by (simp add: demo_parsed_def)
  from parseScript_scenes_initialised [OF demo_parseScript, rule_format, OF h]
  show ?thesis using h demo_parseScript by (simp add: string_of_nat.simps)
qed



text \<open>
  C4: no automatic retry. In every state the page can reach: an event starts at most one
  \<^verbatim>\<open>generateVideo\<close> call and sends at most one job submission, and only an act of the
  user starts a call; a submission from the form puts exactly one call in flight; when
  that call throws, the page is in \<^verbatim>\<open>ERROR\<close> with nothing in flight for it, and its
  trace holds at most one job submission; in \<^verbatim>\<open>ERROR\<close> no event starts a call, and the
  state stays \<^verbatim>\<open>ERROR\<close> until the try-again button resets it to \<^verbatim>\<open>IDLE\<close>. In the director
  view the failure of a scene is recorded in the scene: it gets status \<^verbatim>\<open>error\<close> and the
  \<^verbatim>\<open>Retry\<close> button, with no call left in flight for it; that button starts one call, for
  that scene, and marks that scene only.
\<close>

theorem no_automatic_retry:
  assumes "ui = run es initial_UI"
  shows
    "calls_in_flight (step e ui) \<le> Suc (calls_in_flight ui) \<and>
     (calls_in_flight ui < calls_in_flight (step e ui) \<longrightarrow> is_click e) \<and>
     length (filter is_GenerateVideos (log (step e ui)))
       \<le> Suc (length (filter is_GenerateVideos (log ui))) \<and>
     (\<forall>params. e = Submit params \<and> mode params \<noteq> DIRECTOR \<and> appState (app ui) = IDLE \<and>
        \<not> isAnalyzing ui \<longrightarrow>
        generating ui = None \<and> generating (step e ui) = Some params \<and>
        calls_in_flight (step e ui) = Suc (calls_in_flight ui) \<and> log (step e ui) = log ui) \<and>
     (\<forall>remote fuel params tr err.
        e = GenerationSettled remote fuel \<and> generating ui = Some params \<and>
        generateVideo remote fuel params = (tr, Threw err) \<longrightarrow>
        appState (app (step e ui)) = ERROR \<and> generating (step e ui) = None \<and>
        calls_in_flight (step e ui) < calls_in_flight ui \<and>
        log (step e ui) = log ui @ tr \<and> length (filter is_GenerateVideos tr) \<le> 1) \<and>
     (appState (app ui) = ERROR \<longrightarrow>
        generating ui = None \<and> generating (step e ui) = None \<and>
        calls_in_flight (step e ui) \<le> calls_in_flight ui \<and>
        (appState (app (step e ui)) = ERROR \<or>
         e = ClickTryAgain \<and> appState (app (step e ui)) = IDLE)) \<and>
     (\<forall>index remote fuel params tr err d.
        e = SceneSettled index remote fuel \<and> map_of (producing ui) index = Some params \<and>
        generateVideo remote fuel params = (tr, Threw err) \<and>
        director ui = Some d \<and> index < length (scenes d) \<longrightarrow>
        director (step e ui) = Some (handleGenerateScene_settle index (Threw err) d) \<and>
        scene_card_button
          (StoryboardScene.status (scenes (handleGenerateScene_settle index (Threw err) d) ! index))
          = Some Retry \<and>
        map_of (producing (step e ui)) index = None \<and>
        calls_in_flight (step e ui) \<le> calls_in_flight ui) \<and>
     (\<forall>index d.
        e = ClickSceneButton index \<and> director ui = Some d \<and> index < length (scenes d) \<and>
        scene_card_button (StoryboardScene.status (scenes d ! index)) = Some Retry \<longrightarrow>
        producing (step e ui) =
          (index, director_params (app ui) (scenes d ! index)) # producing ui \<and>
        generating (step e ui) = generating ui \<and> orphaned (step e ui) = orphaned ui \<and>
        director (step e ui) = Some (handleGenerateScene_begin index d) \<and>
        length (scenes (handleGenerateScene_begin index d)) = length (scenes d) \<and>
        (\<forall>j. j < length (scenes d) \<and> j \<noteq> index \<longrightarrow>
           scenes (handleGenerateScene_begin index d) ! j = scenes d ! j))"
proof -
  have inv: "invariant ui" unfolding assms by (rule invariant_reachable)
  note flight = step_calls_in_flight [of e ui]
  have k1: "calls_in_flight (step e ui) \<le> Suc (calls_in_flight ui)"
    using flight by simp
  have k2: "calls_in_flight ui < calls_in_flight (step e ui) \<longrightarrow> is_click e"
    using flight by simp
  have k3: "length (filter is_GenerateVideos (log (step e ui)))
       \<le> Suc (length (filter is_GenerateVideos (log ui)))"
    by (rule step_one_request)
  have k4: "\<forall>params. e = Submit params \<and> mode params \<noteq> DIRECTOR \<and> appState (app ui) = IDLE \<and>
        \<not> isAnalyzing ui \<longrightarrow>
        generating ui = None \<and> generating (step e ui) = Some params \<and>
        calls_in_flight (step e ui) = Suc (calls_in_flight ui) \<and> log (step e ui) = log ui"
    using inv by (auto simp: invariant_def calls_in_flight_def)
  have k5: "\<forall>remote fuel params tr err.
        e = GenerationSettled remote fuel \<and> generating ui = Some params \<and>
        generateVideo remote fuel params = (tr, Threw err) \<longrightarrow>
        appState (app (step e ui)) = ERROR \<and> generating (step e ui) = None \<and>
        calls_in_flight (step e ui) < calls_in_flight ui \<and>
        log (step e ui) = log ui @ tr \<and> length (filter is_GenerateVideos tr) \<le> 1"
    using generateVideo_requests
    by (auto simp: step_GenerationSettled calls_in_flight_def)
  have k6: "appState (app ui) = ERROR \<longrightarrow>
        generating ui = None \<and> generating (step e ui) = None \<and>
        calls_in_flight (step e ui) \<le> calls_in_flight ui \<and>
        (appState (app (step e ui)) = ERROR \<or>
         e = ClickTryAgain \<and> appState (app (step e ui)) = IDLE)"
  proof
    assume err: "appState (app ui) = ERROR"
    with inv have g: "generating ui = None" and a: "\<not> isAnalyzing ui"
      and d: "director ui = None" and p: "producing ui = []"
      by (auto simp: invariant_def)
    have "invariant (step e ui)" using inv by (rule invariant_step)
    moreover have "appState (app (step e ui)) = ERROR \<or>
         e = ClickTryAgain \<and> appState (app (step e ui)) = IDLE"
      using step_from_ERROR [OF inv err, of e] by blast
    ultimately have g': "generating (step e ui) = None"
      by (auto simp: invariant_def)
    have "\<not> calls_in_flight ui < calls_in_flight (step e ui)"
    proof
      assume less: "calls_in_flight ui < calls_in_flight (step e ui)"
      with flight have "is_click e" by simp
      with err g a d p have "calls_in_flight (step e ui) = calls_in_flight ui"
        by (cases e) (auto simp: calls_in_flight_def handler_defs)
      with less show False by simp
    qed
    then have "calls_in_flight (step e ui) \<le> calls_in_flight ui" by simp
    with g g' step_from_ERROR [OF inv err, of e]
    show "generating ui = None \<and> generating (step e ui) = None \<and>
        calls_in_flight (step e ui) \<le> calls_in_flight ui \<and>
        (appState (app (step e ui)) = ERROR \<or>
         e = ClickTryAgain \<and> appState (app (step e ui)) = IDLE)"
      by blast
  qed
  have k7: "\<forall>index remote fuel params tr err d.
        e = SceneSettled index remote fuel \<and> map_of (producing ui) index = Some params \<and>
        generateVideo remote fuel params = (tr, Threw err) \<and>
        director ui = Some d \<and> index < length (scenes d) \<longrightarrow>
        director (step e ui) = Some (handleGenerateScene_settle index (Threw err) d) \<and>
        scene_card_button
          (StoryboardScene.status (scenes (handleGenerateScene_settle index (Threw err) d) ! index))
          = Some Retry \<and>
        map_of (producing (step e ui)) index = None \<and>
        calls_in_flight (step e ui) \<le> calls_in_flight ui"
    by (auto simp: step_SceneSettled map_of_filter_out calls_in_flight_def)
  have k8: "\<forall>index d.
        e = ClickSceneButton index \<and> director ui = Some d \<and> index < length (scenes d) \<and>
        scene_card_button (StoryboardScene.status (scenes d ! index)) = Some Retry \<longrightarrow>
        producing (step e ui) =
          (index, director_params (app ui) (scenes d ! index)) # producing ui \<and>
        generating (step e ui) = generating ui \<and> orphaned (step e ui) = orphaned ui \<and>
        director (step e ui) = Some (handleGenerateScene_begin index d) \<and>
        length (scenes (handleGenerateScene_begin index d)) = length (scenes d) \<and>
        (\<forall>j. j < length (scenes d) \<and> j \<noteq> index \<longrightarrow>
           scenes (handleGenerateScene_begin index d) ! j = scenes d ! j)"
    using inv by (auto simp: invariant_def begin_nth)
  show ?thesis by (intro conjI k1 k2 k3 k4 k5 k6 k7 k8)
qed

text \<open>A rejected submission, then the try-again button.\<close>

theorem no_automatic_retry_witness:
  "generating (run [Submit demo_params] initial_UI) = Some demo_params \<and>
   generateVideo failing_remote 3 demo_params =
     ([GenerateVideos demo_payload (Inl (Error ''quota exceeded''))],
      Threw (Error ''quota exceeded'')) \<and>
   appState (app (step (GenerationSettled failing_remote 3)
     (run [Submit demo_params] initial_UI))) = ERROR \<and>
   generating (step (GenerationSettled failing_remote 3)
     (run [Submit demo_params] initial_UI)) = None \<and>
   appState (app (run [Submit demo_params, GenerationSettled failing_remote 3] initial_UI)) = ERROR \<and>
   generating (step ClickTryAgain
     (run [Submit demo_params, GenerationSettled failing_remote 3] initial_UI)) = None \<and>
   appState (app (step ClickTryAgain
     (run [Submit demo_params, GenerationSettled failing_remote 3] initial_UI))) = IDLE"
proof -
  let ?loading = "run [Submit demo_params] initial_UI"
  let ?failed = "run [Submit demo_params, GenerationSettled failing_remote 3] initial_UI"
  have a1: "generating ?loading = Some demo_params"
    unfolding demo_loading by simp
  from no_automatic_retry
    [OF refl, where es = "[Submit demo_params]" and e = "GenerationSettled failing_remote 3"]
  have "\<forall>remote fuel params tr err.
        GenerationSettled failing_remote 3 = GenerationSettled remote fuel \<and>
        generating ?loading = Some params \<and>
        generateVideo remote fuel params = (tr, Threw err) \<longrightarrow>
        appState (app (step (GenerationSettled failing_remote 3) ?loading)) = ERROR \<and>
        generating (step (GenerationSettled failing_remote 3) ?loading) = None \<and>
        calls_in_flight (step (GenerationSettled failing_remote 3) ?loading)
          < calls_in_flight ?loading \<and>
        log (step (GenerationSettled failing_remote 3) ?loading) = log ?loading @ tr \<and>
        length (filter is_GenerateVideos tr) \<le> 1"
    by (elim conjE)
  from this [rule_format, of failing_remote 3 demo_params] a1 failing_generateVideo
  have a2: "appState (app (step (GenerationSettled failing_remote 3) ?loading)) = ERROR"
    and a3: "generating (step (GenerationSettled failing_remote 3) ?loading) = None"
    by blast+
  have b1: "appState (app ?failed) = ERROR"
    unfolding demo_failure by (simp add: ui_defs)
  have b2: "appState (app (step ClickTryAgain ?failed)) = IDLE"
    unfolding demo_failure by (simp add: ui_defs)
  from no_automatic_retry
    [OF refl, where es = "[Submit demo_params, GenerationSettled failing_remote 3]"
       and e = ClickTryAgain]
  have "appState (app ?failed) = ERROR \<longrightarrow>
        generating ?failed = None \<and> generating (step ClickTryAgain ?failed) = None \<and>
        calls_in_flight (step ClickTryAgain ?failed) \<le> calls_in_flight ?failed \<and>
        (appState (app (step ClickTryAgain ?failed)) = ERROR \<or>
         ClickTryAgain = ClickTryAgain \<and> appState (app (step ClickTryAgain ?failed)) = IDLE)"
    by (elim conjE)
  with b1 have b3: "generating (step ClickTryAgain ?failed) = None" by blast
  show ?thesis by (intro conjI a1 failing_generateVideo a2 a3 b1 b3 b2)
qed

text \<open>
  C7, as the code has it: the object URL created for a generated video is never
  released. No run of the page, no call of \<^verbatim>\<open>handleGenerate\<close> and no call of
  \<^verbatim>\<open>handleGenerateScene\<close> makes a \<^verbatim>\<open>URL.revokeObjectURL\<close> call, so every object URL a run
  has created is still alive at its end; \<^verbatim>\<open>handleNewVideo\<close> only clears the references
  the state holds.
\<close>

theorem object_urls_never_released:
  "(\<forall>u. RevokeObjectURL u \<notin> set (log (run es initial_UI))) \<and>
   live_object_urls (log (run es initial_UI)) = created_object_urls (log (run es initial_UI)) \<and>
   (\<forall>u. RevokeObjectURL u \<notin> set (snd (handleGenerate remote fuel params s))) \<and>
   (\<forall>u. RevokeObjectURL u \<notin>
      set (snd (handleGenerateScene remote fuel model' aspectRatio' resolution' index d))) \<and>
   App.videoUrl (handleNewVideo s) = None \<and> storyboardScenes (handleNewVideo s) = []"
proof -
  have k1: "\<forall>u. RevokeObjectURL u \<notin> set (log (run es initial_UI))"
    by (rule run_no_revoke) (simp add: initial_UI_def)
  from live_without_revoke [OF k1]
  have k2: "live_object_urls (log (run es initial_UI)) =
            created_object_urls (log (run es initial_UI))" .
  have k3: "\<forall>u. RevokeObjectURL u \<notin> set (snd (handleGenerate remote fuel params s))"
  proof -
    obtain tr out where g: "generateVideo remote fuel params = (tr, out)"
      by (cases "generateVideo remote fuel params")
    with generateVideo_requests [OF g] show ?thesis by (simp add: handleGenerate_def)
  qed
  have k4: "\<forall>u. RevokeObjectURL u \<notin>
      set (snd (handleGenerateScene remote fuel model' aspectRatio' resolution' index d))"
  proof (cases "index < length (scenes d)")
    case True
    obtain tr out where g: "generateVideo remote fuel
        (scene_params model' aspectRatio' resolution' (scenes d ! index)) = (tr, out)"
      by (cases "generateVideo remote fuel
        (scene_params model' aspectRatio' resolution' (scenes d ! index))")
    with generateVideo_requests [OF g] True show ?thesis
      by (simp add: handleGenerateScene_def)
  next
    case False
    then show ?thesis by (simp add: handleGenerateScene_def)
  qed
  have k5: "App.videoUrl (handleNewVideo s) = None" "storyboardScenes (handleNewVideo s) = []"
    by (simp_all add: handleNewVideo_def)
  show ?thesis by (intro conjI k1 k2 k3 k4 k5)
qed

text \<open>
  C7 as stated has the URL released when it is no longer needed. After a generation and
  the new-video action the state no longer holds the URL and the URL is alive; likewise
  after a scene was produced and the project was discarded.
\<close>

theorem object_url_outlives_new_video:
  "App.videoUrl (app (run [Submit demo_params, GenerationSettled demo_remote 3] initial_UI))
     = Some ''blob:1'' \<and>
   App.videoUrl (app (run [Submit demo_params, GenerationSettled demo_remote 3, ClickNewVideo]
     initial_UI)) = None \<and>
   live_object_urls (log (run [Submit demo_params, GenerationSettled demo_remote 3, ClickNewVideo]
     initial_UI)) = [''blob:1''] \<and>
   map (StoryboardScene.videoUrl)
     (scenes (the (director (run [Submit demo_director_params, AnalysisSettled (Inr [demo_scene]),
        ClickSceneButton 0, SceneSettled 0 demo_remote 3] initial_UI)))) = [Some ''blob:1''] \<and>
   director (step ClickNewProject
     (run [Submit demo_director_params, AnalysisSettled (Inr [demo_scene]),
        ClickSceneButton 0, SceneSettled 0 demo_remote 3] initial_UI)) = None \<and>
   storyboardScenes (app (step ClickNewProject
     (run [Submit demo_director_params, AnalysisSettled (Inr [demo_scene]),
        ClickSceneButton 0, SceneSettled 0 demo_remote 3] initial_UI))) = [] \<and>
   live_object_urls (log (step ClickNewProject
     (run [Submit demo_director_params, AnalysisSettled (Inr [demo_scene]),
        ClickSceneButton 0, SceneSettled 0 demo_remote 3] initial_UI))) = [''blob:1'']"
  unfolding demo_new_video demo_success demo_scene_produced
  by (simp add: demo_trace_def demo_result_def handleNewVideo_def handleGenerate_begin_def
        handleDirectorParse_def initial_UI_def initial_App_def)

text \<open>The run of the first case above.\<close>

theorem object_urls_never_released_witness:
  "live_object_urls (log (run [Submit demo_params, GenerationSettled demo_remote 3, ClickNewVideo]
     initial_UI)) =
   created_object_urls (log (run [Submit demo_params, GenerationSettled demo_remote 3,
     ClickNewVideo] initial_UI)) \<and>
   RevokeObjectURL ''blob:1'' \<notin>
     set (log (run [Submit demo_params, GenerationSettled demo_remote 3, ClickNewVideo] initial_UI))"
  using object_urls_never_released
    [where es = "[Submit demo_params, GenerationSettled demo_remote 3, ClickNewVideo]"]
  by blast

end
